theory Spec2Isabelle
  imports Complex_Main
begin

section \<open>Numbers, dictionaries and errors\<close>

text \<open>
  The program is Python. Its \<^verbatim>\<open>float\<close> values are modelled by exact reals: the
  rounding error of IEEE arithmetic is not part of this development, only the explicit
  calls of \<^verbatim>\<open>round(x, n)\<close> are. Python rounds to the nearest multiple of \<open>10 ^ -n\<close>
  and resolves a tie to the even neighbour.

  The code rounds the double it has computed, which differs from the exact value by a
  few units in the sixteenth digit. Where the exact value is a tie or next to one, the
  code may therefore return the other neighbour than \<open>py_round\<close> of the exact value.
  The statements about a rounded quotient below are bounds on its distance from the
  exact quotient, with an allowance of \<open>(1 + \<bar>q\<bar>) / 10 ^ 9\<close> for the error of the
  double-precision operations; they hold for either neighbour.

  A \<^verbatim>\<open>dict\<close> is an association list in insertion order with pairwise distinct keys;
  \<^verbatim>\<open>d[k] = v\<close> overwrites the entry of \<open>k\<close> in place or appends a new one.
\<close>

definition round_half_even :: "real \<Rightarrow> int" where
  "round_half_even x =
     (let f = \<lfloor>x\<rfloor>; d = x - of_int f
      in if d < 1/2 then f else if 1/2 < d then f + 1 else if even f then f else f + 1)"

definition py_round :: "real \<Rightarrow> nat \<Rightarrow> real" where
  "py_round x n = of_int (round_half_even (x * 10 ^ n)) / 10 ^ n"

type_synonym 'v py_dict = "(string \<times> 'v) list"

fun dict_set :: "'v py_dict \<Rightarrow> string \<Rightarrow> 'v \<Rightarrow> 'v py_dict" where
  "dict_set [] k v = [(k, v)]"
| "dict_set ((k', v') # d) k v = (if k' = k then (k, v) # d else (k', v') # dict_set d k v)"

definition dict_get :: "'v py_dict \<Rightarrow> string \<Rightarrow> 'v \<Rightarrow> 'v" where
  "dict_get d k dflt = (case map_of d k of None \<Rightarrow> dflt | Some v \<Rightarrow> v)"

definition dict_values :: "'v py_dict \<Rightarrow> 'v list" where
  "dict_values d = map snd d"

definition dict_keys :: "'v py_dict \<Rightarrow> string list" where
  "dict_keys d = map fst d"

datatype py_error =
    ValueError string
  | KeyError string
  | IndexError
  | ZeroDivisionError

section \<open>The chemistry calculator (\<^verbatim>\<open>src/chemistry/soap_calculator.py\<close>)\<close>

text \<open>
  The two databases are read from JSON files that are not part of the sources, so they are
  parameters here. Their entries are typed as the data model of the specification gives
  them: an oil has its two saponification values, a score for each of the seven soap
  properties and a percentage for each of the eight fatty acids; a modifier has an
  optional lye adjustment factor, an optional typical usage and an optional usage type.
\<close>

record oil =
  sap_naoh :: real
  sap_koh :: real
  properties :: "string \<Rightarrow> real"
  fatty_acids :: "string \<Rightarrow> real"

record modifier =
  lye_adjustment_factor :: "real option"
  typical_usage_percent :: "real option"
  usage_rate_type :: "string option"

type_synonym oils_db = "string \<rightharpoonup> oil"
type_synonym modifiers_db = "string \<rightharpoonup> modifier"

definition oil_not_found :: "string \<Rightarrow> py_error" where
  "oil_not_found oil_name =
     ValueError (''Oil '' @ [CHR 0x27] @ oil_name @ [CHR 0x27] @ '' not found in database'')"

text \<open>The loop of \<^verbatim>\<open>calculate_lye_amount\<close> over \<^verbatim>\<open>oil_weights.items()\<close>.\<close>

fun lye_loop :: "oils_db \<Rightarrow> (oil \<Rightarrow> real) \<Rightarrow> real py_dict \<Rightarrow> real \<Rightarrow> py_error + real" where
  "lye_loop db sap_key [] total_lye = Inr total_lye"
| "lye_loop db sap_key ((oil_name, weight) # rest) total_lye =
     (case db oil_name of
        None \<Rightarrow> Inl (oil_not_found oil_name)
      | Some entry \<Rightarrow> lye_loop db sap_key rest (total_lye + weight * sap_key entry))"

text \<open>The loop over \<^verbatim>\<open>modifiers.items()\<close>.\<close>

fun adjustment_loop :: "modifiers_db \<Rightarrow> real py_dict \<Rightarrow> real \<Rightarrow> real" where
  "adjustment_loop mdb [] lye_adjustment = lye_adjustment"
| "adjustment_loop mdb ((modifier_name, amount) # rest) lye_adjustment =
     (case mdb modifier_name of
        None \<Rightarrow> adjustment_loop mdb rest lye_adjustment
      | Some m \<Rightarrow>
          (case lye_adjustment_factor m of
             None \<Rightarrow> adjustment_loop mdb rest lye_adjustment
           | Some factor \<Rightarrow> adjustment_loop mdb rest (lye_adjustment + amount * factor)))"

text \<open>
  \<^verbatim>\<open>modifiers\<close> defaults to \<^verbatim>\<open>None\<close>; \<^verbatim>\<open>if modifiers:\<close> is false for \<^verbatim>\<open>None\<close> and for the
  empty dict.
\<close>

definition calculate_lye_amount ::
  "oils_db \<Rightarrow> modifiers_db \<Rightarrow> real py_dict \<Rightarrow> real \<Rightarrow> real py_dict option \<Rightarrow> string
    \<Rightarrow> py_error + (real \<times> real)" where
  "calculate_lye_amount db mdb oil_weights superfat_percent modifiers lye_type =
     (let sap_key = (if lye_type = ''NaOH'' then sap_naoh else sap_koh)
      in case lye_loop db sap_key oil_weights 0 of
           Inl e \<Rightarrow> Inl e
         | Inr total_lye \<Rightarrow>
             (let total_lye' = total_lye * (1 - superfat_percent / 100);
                  lye_adjustment =
                    (case modifiers of
                       None \<Rightarrow> 0
                     | Some ms \<Rightarrow> if ms = [] then 0 else adjustment_loop mdb ms 0)
              in Inr (py_round total_lye' 2, py_round lye_adjustment 2)))"


definition property_names :: "string list" where
  "property_names =
     [''hardness'', ''cleansing'', ''conditioning'', ''bubbly'', ''creamy'', ''iodine'', ''ins'']"

definition fatty_acid_names :: "string list" where
  "fatty_acid_names =
     [''lauric'', ''myristic'', ''palmitic'', ''stearic'', ''ricinoleic'', ''oleic'',
      ''linoleic'', ''linolenic'']"

text \<open>
  The accumulation loop shared in shape by \<^verbatim>\<open>calculate_soap_properties\<close> and
  \<^verbatim>\<open>calculate_fatty_acid_profile\<close>: an oil that is not in the database is skipped by
  \<^verbatim>\<open>continue\<close>; \<open>vec\<close> selects \<^verbatim>\<open>['properties']\<close> or \<^verbatim>\<open>['fatty_acids']\<close>.
  The sums are accumulated in exact arithmetic here and in doubles in the code: at a tie
  of the exact average the final \<^verbatim>\<open>round(v, 1)\<close> of the code may return the other
  neighbour.
\<close>

fun average_loop ::
  "oils_db \<Rightarrow> (oil \<Rightarrow> string \<Rightarrow> real) \<Rightarrow> real \<Rightarrow> real py_dict \<Rightarrow> real py_dict \<Rightarrow> real py_dict" where
  "average_loop db vec total_weight [] acc = acc"
| "average_loop db vec total_weight ((oil_name, weight) # rest) acc =
     (case db oil_name of
        None \<Rightarrow> average_loop db vec total_weight rest acc
      | Some entry \<Rightarrow>
          (let percentage = weight / total_weight
           in average_loop db vec total_weight rest
                (map (\<lambda>(prop, v). (prop, v + vec entry prop * percentage)) acc)))"

definition calculate_soap_properties :: "oils_db \<Rightarrow> real py_dict \<Rightarrow> real py_dict" where
  "calculate_soap_properties db oil_weights =
     (let total_weight = sum_list (dict_values oil_weights)
      in if total_weight = 0 then []
         else map (\<lambda>(k, v). (k, py_round v 1))
                (average_loop db properties total_weight oil_weights
                   (map (\<lambda>p. (p, 0)) property_names)))"

definition calculate_fatty_acid_profile :: "oils_db \<Rightarrow> real py_dict \<Rightarrow> real py_dict" where
  "calculate_fatty_acid_profile db oil_weights =
     (let total_weight = sum_list (dict_values oil_weights)
      in if total_weight = 0 then []
         else map (\<lambda>(k, v). (k, py_round v 1))
                (average_loop db fatty_acids total_weight oil_weights
                   (map (\<lambda>p. (p, 0)) fatty_acid_names)))"

definition calculate_fragrance_amount :: "real \<Rightarrow> real \<Rightarrow> real" where
  "calculate_fragrance_amount total_oil_weight fragrance_percent =
     py_round (total_oil_weight * fragrance_percent / 100) 2"

definition calculate_modifier_amount ::
  "modifiers_db \<Rightarrow> string \<Rightarrow> real \<Rightarrow> real option \<Rightarrow> real" where
  "calculate_modifier_amount mdb modifier_name total_oil_weight usage_percent =
     (case mdb modifier_name of
        None \<Rightarrow> 0
      | Some m \<Rightarrow>
          (let usage_percent' =
                 (case usage_percent of
                    None \<Rightarrow> (case typical_usage_percent m of None \<Rightarrow> 1 | Some t \<Rightarrow> t)
                  | Some u \<Rightarrow> u);
               usage_type =
                 (case usage_rate_type m of None \<Rightarrow> ''percent_of_oils'' | Some t \<Rightarrow> t)
           in if usage_type = ''percent_of_oils''
              then py_round (total_oil_weight * usage_percent' / 100) 2
              else usage_percent'))"



definition double_weights :: "real py_dict \<Rightarrow> real py_dict" where
  "double_weights oil_weights = map (\<lambda>(oil_name, weight). (oil_name, 2 * weight)) oil_weights"

text \<open>
  A two-entry database for the concrete evaluations below. The values are the usual
  saponification values of the two oils; the scores are illustrative.
\<close>

definition sample_oils_db :: oils_db where
  "sample_oils_db =
     [''Olive Oil'' \<mapsto> \<lparr>sap_naoh = 134 / 1000, sap_koh = 188 / 1000,
                        properties = (\<lambda>p. if p = ''hardness'' then 17 else 10),
                        fatty_acids = (\<lambda>p. if p = ''oleic'' then 72 else 4)\<rparr>,
      ''Coconut Oil'' \<mapsto> \<lparr>sap_naoh = 178 / 1000, sap_koh = 257 / 1000,
                          properties = (\<lambda>p. if p = ''hardness'' then 79 else 20),
                          fatty_acids = (\<lambda>p. if p = ''lauric'' then 48 else 5)\<rparr>]"

definition sample_modifiers_db :: modifiers_db where
  "sample_modifiers_db =
     [''Citric Acid'' \<mapsto> \<lparr>lye_adjustment_factor = Some (6 / 10),
                          typical_usage_percent = Some 1,
                          usage_rate_type = Some ''percent_of_oils''\<rparr>,
      ''Sugar'' \<mapsto> \<lparr>lye_adjustment_factor = None,
                    typical_usage_percent = Some 1,
                    usage_rate_type = Some ''tablespoons_per_pound''\<rparr>]"

section \<open>Recipes (\<^verbatim>\<open>src/models/recipe.py\<close>)\<close>

text \<open>
  The attributes of a \<^verbatim>\<open>Recipe\<close> object and the entries of the dictionary that
  \<^verbatim>\<open>to_dict\<close> builds are untyped Python values; neither function inspects them apart
  from the test \<^verbatim>\<open>modifiers is not None\<close>. The fields of the record carry the prefix
  \<open>recipe_\<close>. The creation time that \<^verbatim>\<open>__init__\<close> reads from the clock is the
  parameter \<open>now\<close>.
\<close>

datatype pyval =
    PNone
  | PStr string
  | PFloat real
  | PDict "(string \<times> pyval) list"

record recipe =
  recipe_name :: pyval
  recipe_oils :: pyval
  recipe_superfat :: pyval
  recipe_lye_concentration :: pyval
  recipe_fragrance_percent :: pyval
  recipe_notes :: pyval
  recipe_modifiers :: pyval
  recipe_created_date :: pyval
  recipe_modified_date :: pyval
  recipe_lye_amount :: pyval
  recipe_water_amount :: pyval
  recipe_fragrance_amount :: pyval
  recipe_lye_adjustment :: pyval
  recipe_properties :: pyval
  recipe_fatty_acids :: pyval

definition Recipe_init ::
  "string \<Rightarrow> pyval \<Rightarrow> pyval \<Rightarrow> pyval \<Rightarrow> pyval \<Rightarrow> pyval \<Rightarrow> pyval \<Rightarrow> pyval \<Rightarrow> recipe" where
  "Recipe_init now name oils superfat lye_concentration fragrance_percent notes modifiers =
     \<lparr>recipe_name = name,
      recipe_oils = oils,
      recipe_superfat = superfat,
      recipe_lye_concentration = lye_concentration,
      recipe_fragrance_percent = fragrance_percent,
      recipe_notes = notes,
      recipe_modifiers = (if modifiers \<noteq> PNone then modifiers else PDict []),
      recipe_created_date = PStr now,
      recipe_modified_date = PStr now,
      recipe_lye_amount = PFloat 0,
      recipe_water_amount = PFloat 0,
      recipe_fragrance_amount = PFloat 0,
      recipe_lye_adjustment = PFloat 0,
      recipe_properties = PDict [],
      recipe_fatty_acids = PDict []\<rparr>"

definition to_dict :: "recipe \<Rightarrow> pyval py_dict" where
  "to_dict self =
     [(''name'', recipe_name self),
      (''oils'', recipe_oils self),
      (''superfat'', recipe_superfat self),
      (''lye_concentration'', recipe_lye_concentration self),
      (''fragrance_percent'', recipe_fragrance_percent self),
      (''notes'', recipe_notes self),
      (''modifiers'', recipe_modifiers self),
      (''created_date'', recipe_created_date self),
      (''modified_date'', recipe_modified_date self),
      (''lye_amount'', recipe_lye_amount self),
      (''water_amount'', recipe_water_amount self),
      (''fragrance_amount'', recipe_fragrance_amount self),
      (''lye_adjustment'', recipe_lye_adjustment self),
      (''properties'', recipe_properties self),
      (''fatty_acids'', recipe_fatty_acids self)]"

text \<open>
  \<^verbatim>\<open>data['name']\<close> and \<^verbatim>\<open>data['oils']\<close> raise \<^verbatim>\<open>KeyError\<close> on a missing key, in this
  order; every other entry is read with \<^verbatim>\<open>data.get\<close> and a default.
\<close>

definition from_dict :: "string \<Rightarrow> pyval py_dict \<Rightarrow> py_error + recipe" where
  "from_dict now data =
     (case map_of data ''name'' of
        None \<Rightarrow> Inl (KeyError ''name'')
      | Some name \<Rightarrow>
          (case map_of data ''oils'' of
             None \<Rightarrow> Inl (KeyError ''oils'')
           | Some oils \<Rightarrow>
               (let recipe = Recipe_init now name oils
                      (dict_get data ''superfat'' (PFloat 5))
                      (dict_get data ''lye_concentration'' (PFloat 33))
                      (dict_get data ''fragrance_percent'' (PFloat 3))
                      (dict_get data ''notes'' (PStr []))
                      (dict_get data ''modifiers'' (PDict []))
                in Inr (recipe
                     \<lparr>recipe_created_date :=
                        dict_get data ''created_date'' (recipe_created_date recipe),
                      recipe_modified_date :=
                        dict_get data ''modified_date'' (recipe_modified_date recipe),
                      recipe_lye_amount := dict_get data ''lye_amount'' (PFloat 0),
                      recipe_water_amount := dict_get data ''water_amount'' (PFloat 0),
                      recipe_fragrance_amount := dict_get data ''fragrance_amount'' (PFloat 0),
                      recipe_lye_adjustment := dict_get data ''lye_adjustment'' (PFloat 0),
                      recipe_properties := dict_get data ''properties'' (PDict []),
                      recipe_fatty_acids := dict_get data ''fatty_acids'' (PDict [])\<rparr>))))"

section \<open>The recipe generator (\<^verbatim>\<open>AutoRecipeGenerator\<close> in \<^verbatim>\<open>src/main_auto.py\<close>)\<close>

text \<open>The five entries of the class constant \<^verbatim>\<open>OIL_CATEGORIES\<close>.\<close>

definition OIL_CATEGORIES_base :: "string list" where
  "OIL_CATEGORIES_base =
     [''Olive Oil'', ''Sunflower Oil'', ''Sweet Almond Oil'', ''Rice Bran Oil'', ''Canola Oil'',
      ''Apricot Kernel Oil'', ''Avocado Oil'', ''Hazelnut Oil'', ''Macadamia Nut Oil'']"

definition OIL_CATEGORIES_hard :: "string list" where
  "OIL_CATEGORIES_hard =
     [''Coconut Oil'', ''Palm Oil'', ''Cocoa Butter'', ''Shea Butter'', ''Babassu Oil'',
      ''Beeswax'', ''Mango Butter'']"

definition OIL_CATEGORIES_super_fat :: "string list" where
  "OIL_CATEGORIES_super_fat = [''Castor Oil'', ''Jojoba Oil'']"

definition OIL_CATEGORIES_conditioning :: "string list" where
  "OIL_CATEGORIES_conditioning =
     [''Beef Tallow'', ''Lard'', ''Grapeseed Oil'', ''Hemp Seed Oil'', ''Safflower Oil'']"

definition OIL_CATEGORIES_specialty :: "string list" where
  "OIL_CATEGORIES_specialty = [''Argan Oil'', ''Neem Oil'']"

text \<open>\<^verbatim>\<open>[oil for oil in selected_oils if oil in category]\<close>\<close>

definition selected_in :: "string list \<Rightarrow> string list \<Rightarrow> string list" where
  "selected_in category selected_oils = filter (\<lambda>oil. oil \<in> set category) selected_oils"

text \<open>\<^verbatim>\<open>for oil in oils: recipe[oil] = per_oil\<close>\<close>

fun assign_each :: "real py_dict \<Rightarrow> string list \<Rightarrow> real \<Rightarrow> real py_dict" where
  "assign_each recipe [] per_oil = recipe"
| "assign_each recipe (oil # rest) per_oil = assign_each (dict_set recipe oil per_oil) rest per_oil"

text \<open>\<^verbatim>\<open>for oil in oils: recipe[oil] = recipe.get(oil, 0) + per_oil\<close>\<close>

fun add_each :: "real py_dict \<Rightarrow> string list \<Rightarrow> real \<Rightarrow> real py_dict" where
  "add_each recipe [] per_oil = recipe"
| "add_each recipe (oil # rest) per_oil =
     add_each (dict_set recipe oil (dict_get recipe oil 0 + per_oil)) rest per_oil"

subsection \<open>\<^verbatim>\<open>generate_targeted_recipe\<close>\<close>

record percentages =
  base_pct :: real
  coconut_pct :: real
  hard_pct :: real
  animal_pct :: real
  castor_pct :: real
  specialty_pct :: real

text \<open>
  The targets with their defaults, the five factors and the percentage of each category
  that has a selected oil (lines 171 to 226).
\<close>

definition initial_percentages :: "string list \<Rightarrow> real py_dict \<Rightarrow> percentages" where
  "initial_percentages selected_oils target_props =
     (let selected_base = selected_in OIL_CATEGORIES_base selected_oils;
          selected_hard = selected_in OIL_CATEGORIES_hard selected_oils;
          selected_super = selected_in OIL_CATEGORIES_super_fat selected_oils;
          selected_cond = selected_in OIL_CATEGORIES_conditioning selected_oils;
          selected_specialty = selected_in OIL_CATEGORIES_specialty selected_oils;
          target_hardness = dict_get target_props ''hardness'' 40;
          target_cleansing = dict_get target_props ''cleansing'' 15;
          target_conditioning = dict_get target_props ''conditioning'' 55;
          target_bubbly = dict_get target_props ''bubbly'' 25;
          target_creamy = dict_get target_props ''creamy'' 30;
          hardness_factor = (target_hardness - 29) / 25;
          cleansing_factor = (target_cleansing - 12) / 10;
          conditioning_factor = (target_conditioning - 44) / 25;
          bubbly_factor = (target_bubbly - 14) / 32;
          creamy_factor = (target_creamy - 16) / 32;
          has_base = (0 < length selected_base);
          has_coconut = (''Coconut Oil'' \<in> set selected_hard);
          has_other_hard = (0 < length (filter (\<lambda>x. x \<noteq> ''Coconut Oil'') selected_hard));
          has_animal = (0 < length selected_cond);
          has_castor = (0 < length selected_super);
          has_specialty = (0 < length selected_specialty);
          coconut_need = max cleansing_factor bubbly_factor
      in \<lparr>base_pct = (if has_base then 30 / 100 + conditioning_factor * (30 / 100) else 0),
          coconut_pct = (if has_coconut then 15 / 100 + coconut_need * (35 / 100) else 0),
          hard_pct = (if has_other_hard then 10 / 100 + hardness_factor * (15 / 100) else 0),
          animal_pct = (if has_animal then 10 / 100 + creamy_factor * (20 / 100) else 0),
          castor_pct = (if has_castor then 5 / 100 + creamy_factor * (5 / 100) else 0),
          specialty_pct =
            (if has_specialty then 3 / 100 + conditioning_factor * (2 / 100) else 0)\<rparr>)"

text \<open>The compensation for a selection without base oils (lines 230 to 238).\<close>

definition compensate :: "string list \<Rightarrow> percentages \<Rightarrow> percentages" where
  "compensate selected_oils p =
     (let selected_base = selected_in OIL_CATEGORIES_base selected_oils;
          selected_hard = selected_in OIL_CATEGORIES_hard selected_oils;
          selected_cond = selected_in OIL_CATEGORIES_conditioning selected_oils;
          has_base = (0 < length selected_base);
          has_coconut = (''Coconut Oil'' \<in> set selected_hard);
          has_other_hard = (0 < length (filter (\<lambda>x. x \<noteq> ''Coconut Oil'') selected_hard));
          has_animal = (0 < length selected_cond)
      in if \<not> has_base
         then p\<lparr>coconut_pct := (if has_coconut then coconut_pct p * (6 / 10) else coconut_pct p),
                animal_pct := (if has_animal then animal_pct p * (18 / 10) else animal_pct p),
                hard_pct := (if has_other_hard then hard_pct p * (15 / 10) else hard_pct p)\<rparr>
         else p)"

text \<open>\<^verbatim>\<open># Normalize to 100%\<close> (lines 241 to 248).\<close>

definition normalize_percentages :: "percentages \<Rightarrow> percentages" where
  "normalize_percentages p =
     (let total_pct = base_pct p + coconut_pct p + hard_pct p + animal_pct p + castor_pct p
                      + specialty_pct p
      in if 0 < total_pct
         then \<lparr>base_pct = base_pct p / total_pct,
               coconut_pct = coconut_pct p / total_pct,
               hard_pct = hard_pct p / total_pct,
               animal_pct = animal_pct p / total_pct,
               castor_pct = castor_pct p / total_pct,
               specialty_pct = specialty_pct p / total_pct\<rparr>
         else p)"

definition category_percentages :: "string list \<Rightarrow> real py_dict \<Rightarrow> percentages" where
  "category_percentages selected_oils target_props =
     normalize_percentages (compensate selected_oils (initial_percentages selected_oils target_props))"

text \<open>
  The allocation by category (lines 251 to 292). Coconut oil gets its own share and is
  taken out of the hard oils before these are processed.
\<close>

definition allocate :: "string list \<Rightarrow> real \<Rightarrow> percentages \<Rightarrow> real py_dict" where
  "allocate selected_oils total_oz p =
     (let selected_base = selected_in OIL_CATEGORIES_base selected_oils;
          selected_hard = selected_in OIL_CATEGORIES_hard selected_oils;
          selected_super = selected_in OIL_CATEGORIES_super_fat selected_oils;
          selected_cond = selected_in OIL_CATEGORIES_conditioning selected_oils;
          selected_specialty = selected_in OIL_CATEGORIES_specialty selected_oils;
          recipe0 = [];
          recipe1 =
            (if selected_base \<noteq> []
             then assign_each recipe0 selected_base
                    (total_oz * base_pct p / real (length selected_base))
             else recipe0);
          recipe2 =
            (if ''Coconut Oil'' \<in> set selected_hard
             then dict_set recipe1 ''Coconut Oil'' (total_oz * coconut_pct p)
             else recipe1);
          selected_hard' =
            (if ''Coconut Oil'' \<in> set selected_hard
             then filter (\<lambda>x. x \<noteq> ''Coconut Oil'') selected_hard
             else selected_hard);
          recipe3 =
            (if selected_hard' \<noteq> []
             then add_each recipe2 selected_hard'
                    (total_oz * hard_pct p / real (length selected_hard'))
             else recipe2);
          recipe4 =
            (if selected_cond \<noteq> []
             then add_each recipe3 selected_cond
                    (total_oz * animal_pct p / real (length selected_cond))
             else recipe3);
          recipe5 =
            (if selected_super \<noteq> []
             then add_each recipe4 selected_super
                    (total_oz * castor_pct p / real (length selected_super))
             else recipe4)
      in if selected_specialty \<noteq> []
         then add_each recipe5 selected_specialty
                (total_oz * specialty_pct p / real (length selected_specialty))
         else recipe5)"

text \<open>\<^verbatim>\<open># Normalize to exact total\<close> and the final rounding (lines 295 to 300).\<close>

definition normalize_to_total :: "real \<Rightarrow> real py_dict \<Rightarrow> real py_dict" where
  "normalize_to_total total_oz recipe =
     (let current_total = sum_list (dict_values recipe)
      in if 0 < current_total
         then map (\<lambda>(oil, weight). (oil, weight * (total_oz / current_total))) recipe
         else recipe)"

definition round_weights :: "real py_dict \<Rightarrow> real py_dict" where
  "round_weights recipe = map (\<lambda>(oil, weight). (oil, py_round weight 2)) recipe"

definition generate_targeted_recipe :: "string list \<Rightarrow> real \<Rightarrow> real py_dict \<Rightarrow> real py_dict" where
  "generate_targeted_recipe selected_oils total_oz target_props =
     round_weights
       (normalize_to_total total_oz
          (allocate selected_oils total_oz (category_percentages selected_oils target_props)))"

subsection \<open>\<^verbatim>\<open>generate_recipe\<close>\<close>

text \<open>
  One category of the default schedule for four and more oils (lines 106 to 143): the
  state is the recipe and \<^verbatim>\<open>remaining_oz\<close>; a category without a selected oil leaves it
  unchanged.
\<close>

definition schedule_step ::
  "string list \<Rightarrow> real \<Rightarrow> real py_dict \<times> real \<Rightarrow> real py_dict \<times> real" where
  "schedule_step selected category_total state =
     (case state of (recipe, remaining_oz) \<Rightarrow>
        if selected \<noteq> []
        then (assign_each recipe selected (category_total / real (length selected)),
              remaining_oz - category_total)
        else (recipe, remaining_oz))"

definition default_schedule :: "string list \<Rightarrow> real \<Rightarrow> real py_dict" where
  "default_schedule selected_oils total_oz =
     (let selected_base = selected_in OIL_CATEGORIES_base selected_oils;
          selected_hard = selected_in OIL_CATEGORIES_hard selected_oils;
          selected_super = selected_in OIL_CATEGORIES_super_fat selected_oils;
          selected_cond = selected_in OIL_CATEGORIES_conditioning selected_oils;
          selected_specialty = selected_in OIL_CATEGORIES_specialty selected_oils;
          s0 = ([], total_oz);
          s1 = schedule_step selected_base (total_oz * (45 / 100)) s0;
          s2 = schedule_step selected_hard (min (total_oz * (30 / 100)) (snd s1)) s1;
          s3 = schedule_step selected_cond (min (total_oz * (18 / 100)) (snd s2)) s2;
          s4 = schedule_step selected_super (min (total_oz * (7 / 100)) (snd s3)) s3;
          s5 = schedule_step selected_specialty (min (total_oz * (5 / 100)) (snd s4)) s4;
          recipe = fst s5;
          remaining_oz = snd s5
      in if 1 / 100 < remaining_oz \<and> recipe \<noteq> []
         then map (\<lambda>(oil, weight). (oil, weight + remaining_oz / real (length recipe))) recipe
         else recipe)"

text \<open>
  \<^verbatim>\<open>target_props\<close> defaults to \<^verbatim>\<open>None\<close>; \<^verbatim>\<open>if target_props:\<close> holds for a dictionary
  with an entry. With three oils, a base oil and a hard oil among them, the third is
  \<^verbatim>\<open>[oil for oil in selected_oils if oil not in [...]][0]\<close>, which raises
  \<^verbatim>\<open>IndexError\<close> on an empty list.
\<close>

definition generate_recipe ::
  "string list \<Rightarrow> real \<Rightarrow> real py_dict option \<Rightarrow> py_error + real py_dict" where
  "generate_recipe selected_oils total_weight_lbs target_props =
     (if selected_oils = [] then Inr []
      else
        let total_oz = total_weight_lbs * 16
        in if target_props \<noteq> None \<and> target_props \<noteq> Some []
           then Inr (generate_targeted_recipe selected_oils total_oz (the target_props))
           else
             let selected_base = selected_in OIL_CATEGORIES_base selected_oils;
                 selected_hard = selected_in OIL_CATEGORIES_hard selected_oils
             in case
                  (case selected_oils of
                     [oil] \<Rightarrow> Inr (dict_set [] oil total_oz)
                   | [oil0, oil1] \<Rightarrow>
                       if selected_base \<noteq> [] \<and> selected_hard \<noteq> []
                       then Inr (dict_set (dict_set [] (hd selected_base) (total_oz * (70 / 100)))
                                   (hd selected_hard) (total_oz * (30 / 100)))
                       else Inr (dict_set (dict_set [] oil0 (total_oz * (60 / 100)))
                                   oil1 (total_oz * (40 / 100)))
                   | [oil0, oil1, oil2] \<Rightarrow>
                       if selected_base \<noteq> [] \<and> selected_hard \<noteq> []
                       then
                         (case filter (\<lambda>oil. oil \<notin> set [hd selected_base, hd selected_hard])
                                 selected_oils of
                            [] \<Rightarrow> Inl IndexError
                          | other # _ \<Rightarrow>
                              Inr (dict_set
                                     (dict_set
                                        (dict_set [] (hd selected_base) (total_oz * (50 / 100)))
                                        (hd selected_hard) (total_oz * (30 / 100)))
                                     other (total_oz * (20 / 100))))
                       else Inr (assign_each [] selected_oils (total_oz / 3))
                   | _ \<Rightarrow> Inr (default_schedule selected_oils total_oz))
                of Inl e \<Rightarrow> Inl e
                 | Inr recipe \<Rightarrow> Inr (round_weights recipe))"

text \<open>
  The ranges of the five target sliders (\<^verbatim>\<open>create_slider\<close>, lines 721 to 737), which are
  the ranges that the factors normalise; a target that is left out has its default, which
  lies in the range.
\<close>

definition targets_in_range :: "real py_dict \<Rightarrow> bool" where
  "targets_in_range target_props =
     (29 \<le> dict_get target_props ''hardness'' 40 \<and> dict_get target_props ''hardness'' 40 \<le> 54 \<and>
      12 \<le> dict_get target_props ''cleansing'' 15 \<and> dict_get target_props ''cleansing'' 15 \<le> 22 \<and>
      44 \<le> dict_get target_props ''conditioning'' 55 \<and>
      dict_get target_props ''conditioning'' 55 \<le> 69 \<and>
      14 \<le> dict_get target_props ''bubbly'' 25 \<and> dict_get target_props ''bubbly'' 25 \<le> 46 \<and>
      16 \<le> dict_get target_props ''creamy'' 30 \<and> dict_get target_props ''creamy'' 30 \<le> 48)"

definition all_categories :: "string list" where
  "all_categories =
     OIL_CATEGORIES_base @ OIL_CATEGORIES_hard @ OIL_CATEGORIES_super_fat
     @ OIL_CATEGORIES_conditioning @ OIL_CATEGORIES_specialty"

definition total_of :: "percentages \<Rightarrow> real" where
  "total_of p =
     base_pct p + coconut_pct p + hard_pct p + animal_pct p + castor_pct p + specialty_pct p"

text \<open>
  The dictionary that \<^verbatim>\<open>if target_props:\<close> tests: empty for \<^verbatim>\<open>None\<close>.
\<close>

definition target_dict :: "real py_dict option \<Rightarrow> real py_dict" where
  "target_dict target_props = (case target_props of None \<Rightarrow> [] | Some d \<Rightarrow> d)"

text \<open>
  Invariants of the percentage computation, for the proofs: every weight of a recipe is
  non-negative; the percentage of every category that has a selected oil is positive and
  none is negative; the percentage of every category without a selected oil is zero.
\<close>

definition nonneg_values :: "real py_dict \<Rightarrow> bool" where
  "nonneg_values r = list_all (\<lambda>(k, w). 0 \<le> w) r"

definition present_positive :: "string list \<Rightarrow> percentages \<Rightarrow> bool" where
  "present_positive sel p =
     ((0 \<le> base_pct p \<and> 0 \<le> coconut_pct p \<and> 0 \<le> hard_pct p \<and> 0 \<le> animal_pct p \<and>
       0 \<le> castor_pct p \<and> 0 \<le> specialty_pct p) \<and>
      (selected_in OIL_CATEGORIES_base sel \<noteq> [] \<longrightarrow> 0 < base_pct p) \<and>
      (''Coconut Oil'' \<in> set (selected_in OIL_CATEGORIES_hard sel) \<longrightarrow> 0 < coconut_pct p) \<and>
      (filter (\<lambda>x. x \<noteq> ''Coconut Oil'') (selected_in OIL_CATEGORIES_hard sel) \<noteq> []
         \<longrightarrow> 0 < hard_pct p) \<and>
      (selected_in OIL_CATEGORIES_conditioning sel \<noteq> [] \<longrightarrow> 0 < animal_pct p) \<and>
      (selected_in OIL_CATEGORIES_super_fat sel \<noteq> [] \<longrightarrow> 0 < castor_pct p) \<and>
      (selected_in OIL_CATEGORIES_specialty sel \<noteq> [] \<longrightarrow> 0 < specialty_pct p))"

definition absent_zero :: "string list \<Rightarrow> percentages \<Rightarrow> bool" where
  "absent_zero sel p =
     ((selected_in OIL_CATEGORIES_base sel = [] \<longrightarrow> base_pct p = 0) \<and>
      (''Coconut Oil'' \<notin> set (selected_in OIL_CATEGORIES_hard sel) \<longrightarrow> coconut_pct p = 0) \<and>
      (filter (\<lambda>x. x \<noteq> ''Coconut Oil'') (selected_in OIL_CATEGORIES_hard sel) = []
         \<longrightarrow> hard_pct p = 0) \<and>
      (selected_in OIL_CATEGORIES_conditioning sel = [] \<longrightarrow> animal_pct p = 0) \<and>
      (selected_in OIL_CATEGORIES_super_fat sel = [] \<longrightarrow> castor_pct p = 0) \<and>
      (selected_in OIL_CATEGORIES_specialty sel = [] \<longrightarrow> specialty_pct p = 0))"

section \<open>Rounding to a number of decimals\<close>

lemma round_half_even_error: "\<bar>of_int (round_half_even x) - x\<bar> \<le> 1 / 2"
  unfolding round_half_even_def Let_def by (auto; linarith)

lemma py_round_error: "\<bar>py_round x n - x\<bar> \<le> 1 / (2 * 10 ^ n)"
proof -
  define y where "y = x * 10 ^ n"
  define r where "r = real_of_int (round_half_even y)"
  have p: "(0::real) < 10 ^ n" by simp
  have "\<bar>r - y\<bar> \<le> 1 / 2" unfolding r_def by (rule round_half_even_error)
  then have "\<bar>r - y\<bar> / 10 ^ n \<le> (1 / 2) / 10 ^ n"
    using p by (rule_tac divide_right_mono) simp_all
  moreover have "py_round x n - x = (r - y) / 10 ^ n"
    unfolding py_round_def r_def y_def by (simp add: field_simps)
  ultimately show ?thesis by simp
qed

lemma py_round_zero: "py_round 0 n = 0"
  by (simp add: py_round_def round_half_even_def)

section \<open>The loops of the chemistry calculator\<close>

lemma lye_loop_known:
  "set (dict_keys ws) \<subseteq> dom db \<Longrightarrow>
   lye_loop db sap ws acc = Inr (acc + (\<Sum>(n, w) \<leftarrow> ws. w * sap (the (db n))))"
  by (induction ws arbitrary: acc) (auto simp: dict_keys_def split: option.splits)

lemma lye_loop_unknown:
  "\<not> set (dict_keys ws) \<subseteq> dom db \<Longrightarrow>
   \<exists>n. n \<in> set (dict_keys ws) \<and> db n = None \<and> lye_loop db sap ws acc = Inl (oil_not_found n)"
proof (induction ws arbitrary: acc)
  case Nil
  then show ?case by (simp add: dict_keys_def)
next
  case (Cons a ws)
  obtain n w where a: "a = (n, w)" by (cases a)
  show ?case
  proof (cases "db n")
    case None
    then show ?thesis using a by (auto simp: dict_keys_def)
  next
    case (Some e)
    with Cons.prems a have "\<not> set (dict_keys ws) \<subseteq> dom db"
      by (auto simp: dict_keys_def)
    from Cons.IH [OF this, of "acc + w * sap e"] show ?thesis
      using a Some by (auto simp: dict_keys_def)
  qed
qed




lemma adjustment_loop_skip:
  "mdb name = None \<Longrightarrow>
   adjustment_loop mdb (ms1 @ (name, amount) # ms2) acc = adjustment_loop mdb (ms1 @ ms2) acc"
  by (induction ms1 arbitrary: acc) (auto split: option.splits)

lemma sum_list_double:
  "(\<Sum>(n, w) \<leftarrow> double_weights ws. w * sap (the (db n))) = 2 * (\<Sum>(n, w) \<leftarrow> ws. w * sap (the (db n)))"
  by (induction ws) (auto simp: double_weights_def algebra_simps)

lemma dict_keys_double: "dict_keys (double_weights ws) = dict_keys ws"
  by (simp add: dict_keys_def double_weights_def comp_def case_prod_unfold)

lemma round_double_gap: "\<bar>py_round (2 * x) 2 - 2 * py_round x 2\<bar> \<le> 15 / 1000"
proof -
  have a: "\<bar>py_round (2 * x) 2 - 2 * x\<bar> \<le> 5 / 1000"
    using py_round_error [of "2 * x" 2] by simp
  have b: "\<bar>py_round x 2 - x\<bar> \<le> 5 / 1000"
    using py_round_error [of x 2] by simp
  from a b show ?thesis by linarith
qed




section \<open>Unknown names, empty mappings\<close>






text \<open>
  Claim C10. A modifier name that the modifier database lacks raises nothing: the result
  of \<^verbatim>\<open>calculate_lye_amount\<close>, lye adjustment included, is the one of the mapping
  without that entry, and \<^verbatim>\<open>calculate_modifier_amount\<close> returns 0 for it.
\<close>

theorem unknown_modifier_contributes_zero:
  "mdb modifier_name = None \<Longrightarrow>
   calculate_lye_amount db mdb oil_weights superfat (Some (ms1 @ (modifier_name, amount) # ms2)) lye_type
     = calculate_lye_amount db mdb oil_weights superfat (Some (ms1 @ ms2)) lye_type \<and>
   calculate_modifier_amount mdb modifier_name total_oil_weight usage_percent = 0"
  by (simp add: calculate_lye_amount_def calculate_modifier_amount_def adjustment_loop_skip
      split: sum.splits)

theorem unknown_modifier_contributes_zero_witness:
  "sample_modifiers_db ''Glitter'' = None \<and>
   calculate_lye_amount sample_oils_db sample_modifiers_db [(''Olive Oil'', 500)] 5
     (Some ([(''Citric Acid'', 10)] @ (''Glitter'', 3) # [])) ''NaOH'' = Inr (6365 / 100, 6) \<and>
   calculate_modifier_amount sample_modifiers_db ''Glitter'' 500 None = 0"
proof -
  have h: "sample_modifiers_db ''Glitter'' = None" by (simp add: sample_modifiers_db_def)
  have e: "calculate_lye_amount sample_oils_db sample_modifiers_db [(''Olive Oil'', 500)] 5
     (Some ([(''Citric Acid'', 10)] @ [])) ''NaOH'' = Inr (6365 / 100, 6)"
    by (simp add: calculate_lye_amount_def sample_oils_db_def sample_modifiers_db_def
        py_round_def round_half_even_def Let_def)
  from unknown_modifier_contributes_zero [where mdb = sample_modifiers_db
      and modifier_name = "''Glitter''" and db = sample_oils_db
      and oil_weights = "[(''Olive Oil'', 500)]" and superfat = 5
      and ?ms1.0 = "[(''Citric Acid'', 10)]" and amount = 3 and ?ms2.0 = "[]"
      and lye_type = "''NaOH''" and total_oil_weight = 500 and usage_percent = None] h e
  show ?thesis by simp
qed

text \<open>
  The calculations have no error for an empty selection: on the empty mapping the lye
  calculation returns \<open>(0, 0)\<close> and the two weighted averages return the empty
  dictionary, as they do for weights that sum to zero.
\<close>

theorem empty_selection_no_error:
  "calculate_lye_amount sample_oils_db sample_modifiers_db [] 5 None ''NaOH'' = Inr (0, 0) \<and>
   calculate_soap_properties sample_oils_db [] = [] \<and>
   calculate_fatty_acid_profile sample_oils_db [] = [] \<and>
   calculate_soap_properties sample_oils_db [(''Olive Oil'', 0)] = []"
  by (simp add: calculate_lye_amount_def calculate_soap_properties_def
      calculate_fatty_acid_profile_def dict_values_def py_round_zero)

text \<open>
  Claim C7, as the code has it. When the weights sum to zero (the empty mapping
  included), \<^verbatim>\<open>calculate_soap_properties\<close> and \<^verbatim>\<open>calculate_fatty_acid_profile\<close> return
  the empty dictionary; \<^verbatim>\<open>calculate_lye_amount\<close> returns amount 0 on the empty mapping;
  and the only error the lye calculation ever raises is the one for an oil that the
  database lacks.
\<close>

theorem zero_total_returns_empty:
  "(sum_list (dict_values oil_weights) = 0 \<longrightarrow>
      calculate_soap_properties db oil_weights = [] \<and>
      calculate_fatty_acid_profile db oil_weights = []) \<and>
   (\<exists>adj. calculate_lye_amount db mdb [] superfat modifiers lye_type = Inr (0, adj)) \<and>
   (\<forall>e. calculate_lye_amount db mdb oil_weights superfat modifiers lye_type = Inl e \<longrightarrow>
        (\<exists>n. n \<in> set (dict_keys oil_weights) \<and> db n = None \<and> e = oil_not_found n))"
proof -
  have a: "sum_list (dict_values oil_weights) = 0 \<longrightarrow>
      calculate_soap_properties db oil_weights = [] \<and>
      calculate_fatty_acid_profile db oil_weights = []"
    by (simp add: calculate_soap_properties_def calculate_fatty_acid_profile_def)
  have b: "\<exists>adj. calculate_lye_amount db mdb [] superfat modifiers lye_type = Inr (0, adj)"
    by (simp add: calculate_lye_amount_def py_round_zero Let_def)
  have c: "\<exists>n. n \<in> set (dict_keys oil_weights) \<and> db n = None \<and> e = oil_not_found n"
    if e: "calculate_lye_amount db mdb oil_weights superfat modifiers lye_type = Inl e" for e
  proof (cases "set (dict_keys oil_weights) \<subseteq> dom db")
    case True
    from lye_loop_known [OF True] e show ?thesis
      by (simp add: calculate_lye_amount_def Let_def)
  next
    case False
    from lye_loop_unknown [OF False, of "if lye_type = ''NaOH'' then sap_naoh else sap_koh" 0] e
    show ?thesis by (auto simp: calculate_lye_amount_def)
  qed
  from a b c show ?thesis by blast
qed

theorem zero_total_returns_empty_witness:
  "sum_list (dict_values [(''Olive Oil'', 0::real)]) = 0 \<and>
   calculate_soap_properties sample_oils_db [(''Olive Oil'', 0)] = [] \<and>
   calculate_fatty_acid_profile sample_oils_db [(''Olive Oil'', 0)] = [] \<and>
   calculate_lye_amount sample_oils_db sample_modifiers_db [(''Mystery Oil'', 0)] 5 None ''NaOH''
     = Inl (oil_not_found ''Mystery Oil'')"
proof -
  have z: "sum_list (dict_values [(''Olive Oil'', 0::real)]) = 0" by (simp add: dict_values_def)
  have l: "calculate_lye_amount sample_oils_db sample_modifiers_db [(''Mystery Oil'', 0)] 5 None ''NaOH''
     = Inl (oil_not_found ''Mystery Oil'')"
    by (simp add: calculate_lye_amount_def sample_oils_db_def)
  from zero_total_returns_empty [of "[(''Olive Oil'', 0)]" sample_oils_db] z l
  show ?thesis by simp
qed

section \<open>Water and lye amounts\<close>




text \<open>
  With the saponification value 0.134 and 5 percent superfat, one gram of olive oil
  needs 0.13 of lye and two grams need 0.25: the returned amount is not doubled.
\<close>

theorem doubling_not_exact:
  "calculate_lye_amount sample_oils_db sample_modifiers_db [(''Olive Oil'', 1)] 5 None ''NaOH''
     = Inr (13 / 100, 0) \<and>
   calculate_lye_amount sample_oils_db sample_modifiers_db (double_weights [(''Olive Oil'', 1)]) 5
     None ''NaOH'' = Inr (25 / 100, 0) \<and>
   (25 / 100 :: real) \<noteq> 2 * (13 / 100)"
  by (simp add: calculate_lye_amount_def double_weights_def sample_oils_db_def
      py_round_def round_half_even_def Let_def)

text \<open>
  Claim C6, as the code has it. When every name of the mapping is in the database, the
  lye amount before the final \<^verbatim>\<open>round(total_lye, 2)\<close> doubles when every weight is
  doubled, and the lye adjustment is unchanged; the two returned amounts are the roundings
  of \<open>x\<close> and \<open>2 * x\<close>, so the second differs from twice the first by at most 0.015.
\<close>

theorem doubling_before_rounding:
  "set (dict_keys oil_weights) \<subseteq> dom db \<Longrightarrow>
   \<exists>x adj.
     calculate_lye_amount db mdb oil_weights superfat modifiers lye_type = Inr (py_round x 2, adj) \<and>
     calculate_lye_amount db mdb (double_weights oil_weights) superfat modifiers lye_type
       = Inr (py_round (2 * x) 2, adj) \<and>
     \<bar>py_round (2 * x) 2 - 2 * py_round x 2\<bar> \<le> 15 / 1000"
proof -
  assume k: "set (dict_keys oil_weights) \<subseteq> dom db"
  then have k2: "set (dict_keys (double_weights oil_weights)) \<subseteq> dom db"
    by (simp add: dict_keys_double)
  define sap :: "oil \<Rightarrow> real" where "sap = (if lye_type = ''NaOH'' then sap_naoh else sap_koh)"
  define x where "x = (\<Sum>(n, w) \<leftarrow> oil_weights. w * sap (the (db n))) * (1 - superfat / 100)"
  define adj where "adj = py_round (case modifiers of None \<Rightarrow> 0
                     | Some ms \<Rightarrow> if ms = [] then 0 else adjustment_loop mdb ms 0) 2"
  have 1: "calculate_lye_amount db mdb oil_weights superfat modifiers lye_type = Inr (py_round x 2, adj)"
    using lye_loop_known [OF k, of sap 0]
    by (simp add: calculate_lye_amount_def Let_def x_def adj_def sap_def)
  have 2: "calculate_lye_amount db mdb (double_weights oil_weights) superfat modifiers lye_type
       = Inr (py_round (2 * x) 2, adj)"
    using lye_loop_known [OF k2, of sap 0]
    by (simp add: calculate_lye_amount_def Let_def x_def adj_def sap_def sum_list_double mult.assoc)
  from 1 2 round_double_gap [of x] show ?thesis by blast
qed

theorem doubling_before_rounding_witness:
  "set (dict_keys [(''Olive Oil'', 1::real)]) \<subseteq> dom sample_oils_db \<and>
   (\<exists>x adj.
     calculate_lye_amount sample_oils_db sample_modifiers_db [(''Olive Oil'', 1)] 5 None ''NaOH''
       = Inr (py_round x 2, adj) \<and>
     calculate_lye_amount sample_oils_db sample_modifiers_db (double_weights [(''Olive Oil'', 1)]) 5
       None ''NaOH'' = Inr (py_round (2 * x) 2, adj) \<and>
     \<bar>py_round (2 * x) 2 - 2 * py_round x 2\<bar> \<le> 15 / 1000)"
proof -
  have k: "set (dict_keys [(''Olive Oil'', 1::real)]) \<subseteq> dom sample_oils_db"
    by (simp add: dict_keys_def sample_oils_db_def)
  from doubling_before_rounding [OF k] k show ?thesis by blast
qed

section \<open>Saving and restoring a recipe\<close>

text \<open>
  Claim C8. \<^verbatim>\<open>from_dict\<close> applied to the dictionary of \<^verbatim>\<open>to_dict\<close> succeeds, and the
  restored recipe has the lye amount, lye adjustment, water amount, fragrance amount,
  properties and fatty acids of the original: they are read back, not computed again.
\<close>

theorem recipe_round_trip:
  "\<exists>restored. from_dict now (to_dict r) = Inr restored \<and>
     recipe_lye_amount restored = recipe_lye_amount r \<and>
     recipe_lye_adjustment restored = recipe_lye_adjustment r \<and>
     recipe_water_amount restored = recipe_water_amount r \<and>
     recipe_fragrance_amount restored = recipe_fragrance_amount r \<and>
     recipe_properties restored = recipe_properties r \<and>
     recipe_fatty_acids restored = recipe_fatty_acids r"
  by (simp add: from_dict_def to_dict_def dict_get_def Recipe_init_def Let_def)

text \<open>
  All other attributes are restored as well; \<^verbatim>\<open>modifiers\<close> is, unless it was
  \<^verbatim>\<open>None\<close>, which \<^verbatim>\<open>__init__\<close> replaces by the empty dictionary.
\<close>

lemma recipe_round_trip_all:
  "recipe_modifiers r \<noteq> PNone \<Longrightarrow> from_dict now (to_dict r) = Inr r"
  by (simp add: from_dict_def to_dict_def dict_get_def Recipe_init_def Let_def)

section \<open>The oil categories\<close>

lemma base_disjoint:
  "oil \<in> set OIL_CATEGORIES_base \<Longrightarrow>
   oil \<notin> set OIL_CATEGORIES_hard \<and> oil \<notin> set OIL_CATEGORIES_super_fat \<and>
   oil \<notin> set OIL_CATEGORIES_conditioning \<and> oil \<notin> set OIL_CATEGORIES_specialty"
  unfolding OIL_CATEGORIES_base_def OIL_CATEGORIES_hard_def OIL_CATEGORIES_super_fat_def
    OIL_CATEGORIES_conditioning_def OIL_CATEGORIES_specialty_def
  by auto

lemma hard_disjoint:
  "oil \<in> set OIL_CATEGORIES_hard \<Longrightarrow>
   oil \<notin> set OIL_CATEGORIES_base \<and> oil \<notin> set OIL_CATEGORIES_super_fat \<and>
   oil \<notin> set OIL_CATEGORIES_conditioning \<and> oil \<notin> set OIL_CATEGORIES_specialty"
  unfolding OIL_CATEGORIES_base_def OIL_CATEGORIES_hard_def OIL_CATEGORIES_super_fat_def
    OIL_CATEGORIES_conditioning_def OIL_CATEGORIES_specialty_def
  by auto

lemma super_fat_disjoint:
  "oil \<in> set OIL_CATEGORIES_super_fat \<Longrightarrow>
   oil \<notin> set OIL_CATEGORIES_base \<and> oil \<notin> set OIL_CATEGORIES_hard \<and>
   oil \<notin> set OIL_CATEGORIES_conditioning \<and> oil \<notin> set OIL_CATEGORIES_specialty"
  unfolding OIL_CATEGORIES_base_def OIL_CATEGORIES_hard_def OIL_CATEGORIES_super_fat_def
    OIL_CATEGORIES_conditioning_def OIL_CATEGORIES_specialty_def
  by auto

lemma conditioning_disjoint:
  "oil \<in> set OIL_CATEGORIES_conditioning \<Longrightarrow>
   oil \<notin> set OIL_CATEGORIES_base \<and> oil \<notin> set OIL_CATEGORIES_hard \<and>
   oil \<notin> set OIL_CATEGORIES_super_fat \<and> oil \<notin> set OIL_CATEGORIES_specialty"
  unfolding OIL_CATEGORIES_base_def OIL_CATEGORIES_hard_def OIL_CATEGORIES_super_fat_def
    OIL_CATEGORIES_conditioning_def OIL_CATEGORIES_specialty_def
  by auto

lemma specialty_disjoint:
  "oil \<in> set OIL_CATEGORIES_specialty \<Longrightarrow>
   oil \<notin> set OIL_CATEGORIES_base \<and> oil \<notin> set OIL_CATEGORIES_hard \<and>
   oil \<notin> set OIL_CATEGORIES_super_fat \<and> oil \<notin> set OIL_CATEGORIES_conditioning"
  unfolding OIL_CATEGORIES_base_def OIL_CATEGORIES_hard_def OIL_CATEGORIES_super_fat_def
    OIL_CATEGORIES_conditioning_def OIL_CATEGORIES_specialty_def
  by auto

lemma coconut_is_hard: "''Coconut Oil'' \<in> set OIL_CATEGORIES_hard"
  by (simp add: OIL_CATEGORIES_hard_def)

section \<open>Recipes as dictionaries\<close>

lemma dict_keys_dict_set:
  "dict_keys (dict_set r k v) = (if k \<in> set (dict_keys r) then dict_keys r else dict_keys r @ [k])"
  by (induction r) (force simp: dict_keys_def)+

lemma sum_dict_set_new:
  "k \<notin> set (dict_keys r) \<Longrightarrow>
   sum_list (dict_values (dict_set r k v)) = sum_list (dict_values r) + (v::real)"
  by (induction r) (auto simp: dict_keys_def dict_values_def)

lemma sum_dict_set_add:
  "sum_list (dict_values (dict_set r k (dict_get r k 0 + v))) = sum_list (dict_values r) + (v::real)"
proof (induction r)
  case Nil
  then show ?case by (simp add: dict_values_def dict_get_def)
next
  case (Cons a r)
  obtain k' v' where a: "a = (k', v')" by (cases a)
  show ?case
  proof (cases "k' = k")
    case True
    then show ?thesis using a by (simp add: dict_values_def dict_get_def)
  next
    case False
    then have "dict_get (a # r) k 0 = dict_get r k 0" using a by (simp add: dict_get_def)
    then show ?thesis using a False Cons.IH by (simp add: dict_values_def)
  qed
qed

lemma nonneg_dict_set:
  "nonneg_values r \<Longrightarrow> 0 \<le> v \<Longrightarrow> nonneg_values (dict_set r k v)"
  by (induction r) (auto simp: nonneg_values_def)

lemma nonneg_sum: "nonneg_values r \<Longrightarrow> 0 \<le> sum_list (dict_values r)"
  by (induction r) (auto simp: nonneg_values_def dict_values_def)

lemma sum_dict_set_lower:
  "nonneg_values r \<Longrightarrow> v \<le> sum_list (dict_values (dict_set r k v))"
proof (induction r)
  case Nil
  then show ?case by (simp add: dict_values_def)
next
  case (Cons a r)
  obtain k' v' where a: "a = (k', v')" by (cases a)
  from Cons.prems a have n: "nonneg_values r" and v': "0 \<le> v'"
    by (simp_all add: nonneg_values_def)
  show ?case
  proof (cases "k' = k")
    case True
    then show ?thesis using a nonneg_sum [OF n] by (simp add: dict_values_def)
  next
    case False
    then show ?thesis using a Cons.IH [OF n] v' by (simp add: dict_values_def)
  qed
qed

lemma dict_get_nonneg: "nonneg_values r \<Longrightarrow> 0 \<le> dict_get r k 0"
  by (induction r) (auto simp: nonneg_values_def dict_get_def)

lemma assign_each_sum:
  "distinct ks \<Longrightarrow> set ks \<inter> set (dict_keys r) = {} \<Longrightarrow>
   sum_list (dict_values (assign_each r ks v)) = sum_list (dict_values r) + real (length ks) * v"
proof (induction ks arbitrary: r)
  case Nil
  then show ?case by simp
next
  case (Cons k ks)
  from Cons.prems have k: "k \<notin> set (dict_keys r)" and d: "distinct ks" and kk: "k \<notin> set ks"
    and i: "set ks \<inter> set (dict_keys r) = {}" by auto
  have "set ks \<inter> set (dict_keys (dict_set r k v)) = {}"
    using i kk k by (auto simp: dict_keys_dict_set)
  from Cons.IH [OF d this] k show ?case
    by (simp add: sum_dict_set_new algebra_simps)
qed

lemma assign_each_keys:
  "distinct ks \<Longrightarrow> set ks \<inter> set (dict_keys r) = {} \<Longrightarrow>
   dict_keys (assign_each r ks v) = dict_keys r @ ks"
proof (induction ks arbitrary: r)
  case Nil
  then show ?case by simp
next
  case (Cons k ks)
  from Cons.prems have k: "k \<notin> set (dict_keys r)" and d: "distinct ks" and kk: "k \<notin> set ks"
    and i: "set ks \<inter> set (dict_keys r) = {}" by auto
  have "set ks \<inter> set (dict_keys (dict_set r k v)) = {}"
    using i kk k by (auto simp: dict_keys_dict_set)
  from Cons.IH [OF d this] k show ?case
    by (simp add: dict_keys_dict_set)
qed

lemma assign_each_nonneg:
  "nonneg_values r \<Longrightarrow> 0 \<le> v \<Longrightarrow> nonneg_values (assign_each r ks v)"
  by (induction ks arbitrary: r) (auto simp: nonneg_dict_set)

lemma assign_each_lower:
  "nonneg_values r \<Longrightarrow> 0 \<le> v \<Longrightarrow> ks \<noteq> [] \<Longrightarrow> v \<le> sum_list (dict_values (assign_each r ks v))"
proof (induction ks arbitrary: r)
  case Nil
  then show ?case by simp
next
  case (Cons k ks)
  show ?case
  proof (cases "ks = []")
    case True
    then show ?thesis using Cons.prems by (simp add: sum_dict_set_lower)
  next
    case False
    from Cons.IH [OF nonneg_dict_set [OF Cons.prems(1,2)] Cons.prems(2) False]
    show ?thesis by simp
  qed
qed

lemma add_each_sum:
  "sum_list (dict_values (add_each r ks v)) = sum_list (dict_values r) + real (length ks) * v"
proof (induction ks arbitrary: r)
  case Nil
  then show ?case by simp
next
  case (Cons k ks)
  have "sum_list (dict_values (add_each r (k # ks) v))
      = sum_list (dict_values (dict_set r k (dict_get r k 0 + v))) + real (length ks) * v"
    by (simp only: add_each.simps Cons.IH)
  also have "\<dots> = sum_list (dict_values r) + v + real (length ks) * v"
    by (simp only: sum_dict_set_add)
  also have "\<dots> = sum_list (dict_values r) + real (length (k # ks)) * v"
    by (simp add: algebra_simps)
  finally show ?case .
qed

lemma add_each_nonneg:
  "nonneg_values r \<Longrightarrow> 0 \<le> v \<Longrightarrow> nonneg_values (add_each r ks v)"
  by (induction ks arbitrary: r) (auto simp: nonneg_dict_set dict_get_nonneg)

lemma round_weights_length: "length (round_weights r) = length r"
  by (simp add: round_weights_def)

lemma round_weights_sum:
  "\<bar>sum_list (dict_values (round_weights r)) - sum_list (dict_values r)\<bar>
     \<le> 5 / 1000 * real (length r)"
proof (induction r)
  case Nil
  then show ?case by (simp add: round_weights_def dict_values_def)
next
  case (Cons a r)
  obtain k w where a: "a = (k, w)" by (cases a)
  have e: "\<bar>py_round w 2 - w\<bar> \<le> 5 / 1000" using py_round_error [of w 2] by simp
  have "sum_list (dict_values (round_weights (a # r))) - sum_list (dict_values (a # r))
      = (py_round w 2 - w) + (sum_list (dict_values (round_weights r)) - sum_list (dict_values r))"
    using a by (simp add: round_weights_def dict_values_def)
  moreover have "real (length (a # r)) = 1 + real (length r)" by simp
  ultimately show ?case using e Cons.IH by linarith
qed

lemma normalize_to_total_length: "length (normalize_to_total t r) = length r"
  by (simp add: normalize_to_total_def Let_def)

lemma sum_scaled:
  "sum_list (dict_values (map (\<lambda>(oil, weight). (oil, weight * c)) r))
     = sum_list (dict_values r) * (c::real)"
  by (induction r) (auto simp: dict_values_def algebra_simps)

lemma normalize_to_total_sum:
  assumes "0 < sum_list (dict_values r)"
  shows "sum_list (dict_values (normalize_to_total t r)) = t"
proof -
  define c where "c = t / sum_list (dict_values r)"
  have "normalize_to_total t r = map (\<lambda>(oil, weight). (oil, weight * c)) r"
    using assms unfolding normalize_to_total_def Let_def c_def by (simp only: if_True)
  then have "sum_list (dict_values (normalize_to_total t r)) = sum_list (dict_values r) * c"
    by (simp only: sum_scaled)
  also have "\<dots> = t" using assms unfolding c_def by simp
  finally show ?thesis .
qed

lemma sum_shifted:
  "sum_list (dict_values (map (\<lambda>(oil, weight). (oil, weight + c)) r))
     = sum_list (dict_values r) + real (length r) * c"
  by (induction r) (auto simp: dict_values_def algebra_simps)

section \<open>The category percentages\<close>

lemma initial_present_positive:
  assumes "targets_in_range tp"
  shows "present_positive sel (initial_percentages sel tp)"
proof -
  define hf where "hf = (dict_get tp ''hardness'' 40 - 29) / 25"
  define cf where "cf = (dict_get tp ''cleansing'' 15 - 12) / 10"
  define df where "df = (dict_get tp ''conditioning'' 55 - 44) / 25"
  define bf where "bf = (dict_get tp ''bubbly'' 25 - 14) / 32"
  define yf where "yf = (dict_get tp ''creamy'' 30 - 16) / 32"
  define p where "p = initial_percentages sel tp"
  from assms have f: "0 \<le> hf" "0 \<le> cf" "0 \<le> df" "0 \<le> yf"
    by (simp_all add: targets_in_range_def hf_def cf_def df_def yf_def)
  then have m: "0 \<le> max cf bf" by linarith
  have b: "base_pct p = (if selected_in OIL_CATEGORIES_base sel \<noteq> [] then 30 / 100 + df * (30 / 100) else 0)"
    unfolding p_def initial_percentages_def Let_def df_def by simp
  have c: "coconut_pct p = (if ''Coconut Oil'' \<in> set (selected_in OIL_CATEGORIES_hard sel)
                            then 15 / 100 + max cf bf * (35 / 100) else 0)"
    unfolding p_def initial_percentages_def Let_def cf_def bf_def by simp
  have h: "hard_pct p = (if filter (\<lambda>x. x \<noteq> ''Coconut Oil'') (selected_in OIL_CATEGORIES_hard sel) \<noteq> []
                         then 10 / 100 + hf * (15 / 100) else 0)"
    unfolding p_def initial_percentages_def Let_def hf_def by simp
  have a: "animal_pct p = (if selected_in OIL_CATEGORIES_conditioning sel \<noteq> []
                           then 10 / 100 + yf * (20 / 100) else 0)"
    unfolding p_def initial_percentages_def Let_def yf_def by simp
  have s: "castor_pct p = (if selected_in OIL_CATEGORIES_super_fat sel \<noteq> []
                           then 5 / 100 + yf * (5 / 100) else 0)"
    unfolding p_def initial_percentages_def Let_def yf_def by simp
  have y: "specialty_pct p = (if selected_in OIL_CATEGORIES_specialty sel \<noteq> []
                              then 3 / 100 + df * (2 / 100) else 0)"
    unfolding p_def initial_percentages_def Let_def df_def by simp
  have "0 \<le> base_pct p" "selected_in OIL_CATEGORIES_base sel \<noteq> [] \<longrightarrow> 0 < base_pct p"
    unfolding b using f by simp_all
  moreover have "0 \<le> coconut_pct p"
      "''Coconut Oil'' \<in> set (selected_in OIL_CATEGORIES_hard sel) \<longrightarrow> 0 < coconut_pct p"
    unfolding c using m by simp_all
  moreover have "0 \<le> hard_pct p"
      "filter (\<lambda>x. x \<noteq> ''Coconut Oil'') (selected_in OIL_CATEGORIES_hard sel) \<noteq> [] \<longrightarrow> 0 < hard_pct p"
    unfolding h using f by simp_all
  moreover have "0 \<le> animal_pct p" "selected_in OIL_CATEGORIES_conditioning sel \<noteq> [] \<longrightarrow> 0 < animal_pct p"
    unfolding a using f by simp_all
  moreover have "0 \<le> castor_pct p" "selected_in OIL_CATEGORIES_super_fat sel \<noteq> [] \<longrightarrow> 0 < castor_pct p"
    unfolding s using f by simp_all
  moreover have "0 \<le> specialty_pct p" "selected_in OIL_CATEGORIES_specialty sel \<noteq> [] \<longrightarrow> 0 < specialty_pct p"
    unfolding y using f by simp_all
  ultimately show ?thesis
    unfolding present_positive_def p_def [symmetric] by blast
qed

lemma compensate_present_positive:
  assumes "present_positive sel p"
  shows "present_positive sel (compensate sel p)"
  using assms unfolding present_positive_def compensate_def Let_def
  by (simp add: mult_nonneg_nonneg mult_pos_pos)

lemma normalize_present_positive:
  assumes "present_positive sel p"
  shows "present_positive sel (normalize_percentages p)"
proof (cases "0 < total_of p")
  case True
  then have "normalize_percentages p =
     \<lparr>base_pct = base_pct p / total_of p, coconut_pct = coconut_pct p / total_of p,
      hard_pct = hard_pct p / total_of p, animal_pct = animal_pct p / total_of p,
      castor_pct = castor_pct p / total_of p, specialty_pct = specialty_pct p / total_of p\<rparr>"
    by (simp add: normalize_percentages_def total_of_def Let_def)
  then show ?thesis
    using assms True unfolding present_positive_def by simp
next
  case False
  then have "normalize_percentages p = p"
    by (simp add: normalize_percentages_def total_of_def Let_def)
  then show ?thesis using assms by simp
qed

lemma category_present_positive:
  "targets_in_range tp \<Longrightarrow> present_positive sel (category_percentages sel tp)"
  unfolding category_percentages_def
  by (intro normalize_present_positive compensate_present_positive initial_present_positive)


lemma selected_in_nonempty:
  "selected_in category sel \<noteq> [] \<longleftrightarrow> (\<exists>oil \<in> set sel. oil \<in> set category)"
  by (auto simp: selected_in_def filter_empty_conv)

lemma allocate_positive:
  assumes pp: "present_positive sel p" and t: "0 < t"
    and some: "\<exists>oil \<in> set sel. oil \<in> set all_categories"
  shows "0 < sum_list (dict_values (allocate sel t p))"
proof -
  define sb where "sb = selected_in OIL_CATEGORIES_base sel"
  define sh where "sh = selected_in OIL_CATEGORIES_hard sel"
  define ss where "ss = selected_in OIL_CATEGORIES_super_fat sel"
  define sc where "sc = selected_in OIL_CATEGORIES_conditioning sel"
  define sp where "sp = selected_in OIL_CATEGORIES_specialty sel"
  define sh' where "sh' = (if ''Coconut Oil'' \<in> set sh then filter (\<lambda>x. x \<noteq> ''Coconut Oil'') sh else sh)"
  define r1 where "r1 = (if sb \<noteq> [] then assign_each [] sb (t * base_pct p / real (length sb)) else [])"
  define r2 where "r2 = (if ''Coconut Oil'' \<in> set sh then dict_set r1 ''Coconut Oil'' (t * coconut_pct p) else r1)"
  define r3 where "r3 = (if sh' \<noteq> [] then add_each r2 sh' (t * hard_pct p / real (length sh')) else r2)"
  define r4 where "r4 = (if sc \<noteq> [] then add_each r3 sc (t * animal_pct p / real (length sc)) else r3)"
  define r5 where "r5 = (if ss \<noteq> [] then add_each r4 ss (t * castor_pct p / real (length ss)) else r4)"
  define r6 where "r6 = (if sp \<noteq> [] then add_each r5 sp (t * specialty_pct p / real (length sp)) else r5)"
  have alloc: "allocate sel t p = r6"
    unfolding allocate_def Let_def r6_def r5_def r4_def r3_def r2_def r1_def sh'_def
      sb_def sh_def ss_def sc_def sp_def ..
  have sh'_eq: "sh' = filter (\<lambda>x. x \<noteq> ''Coconut Oil'') sh"
  proof -
    have "''Coconut Oil'' \<notin> set xs \<Longrightarrow> filter (\<lambda>x. x \<noteq> ''Coconut Oil'') xs = xs"
      for xs :: "string list"
      by (induction xs) auto
    then show ?thesis unfolding sh'_def by simp
  qed
  from pp have nn: "0 \<le> base_pct p" "0 \<le> coconut_pct p" "0 \<le> hard_pct p" "0 \<le> animal_pct p"
      "0 \<le> castor_pct p" "0 \<le> specialty_pct p"
    and pb: "sb \<noteq> [] \<Longrightarrow> 0 < base_pct p"
    and pc: "''Coconut Oil'' \<in> set sh \<Longrightarrow> 0 < coconut_pct p"
    and ph: "sh' \<noteq> [] \<Longrightarrow> 0 < hard_pct p"
    and pa: "sc \<noteq> [] \<Longrightarrow> 0 < animal_pct p"
    and ps: "ss \<noteq> [] \<Longrightarrow> 0 < castor_pct p"
    and pp': "sp \<noteq> [] \<Longrightarrow> 0 < specialty_pct p"
    unfolding present_positive_def sb_def sh_def ss_def sc_def sp_def sh'_eq by simp_all
  have e: "nonneg_values []" by (simp add: nonneg_values_def)
  have n1: "nonneg_values r1"
    unfolding r1_def using e nn(1) t by (simp add: assign_each_nonneg)
  have s1: "0 < sum_list (dict_values r1)" if "sb \<noteq> []"
  proof -
    have v: "0 < t * base_pct p / real (length sb)" using that pb t by simp
    from assign_each_lower [OF e less_imp_le [OF v] that] v show ?thesis
      unfolding r1_def using that by simp
  qed
  have n2: "nonneg_values r2"
    unfolding r2_def using n1 nn(2) t by (simp add: nonneg_dict_set)
  have s2: "0 < sum_list (dict_values r2)" if "sb \<noteq> [] \<or> ''Coconut Oil'' \<in> set sh"
  proof (cases "''Coconut Oil'' \<in> set sh")
    case True
    have "0 < t * coconut_pct p" using pc [OF True] t by simp
    with sum_dict_set_lower [OF n1, of "t * coconut_pct p" "''Coconut Oil''"] True
    show ?thesis unfolding r2_def by simp
  next
    case False
    with that s1 show ?thesis unfolding r2_def by simp
  qed
  have s3: "sum_list (dict_values r3) = sum_list (dict_values r2) + (if sh' \<noteq> [] then t * hard_pct p else 0)"
    unfolding r3_def by (simp add: add_each_sum)
  have s4: "sum_list (dict_values r4) = sum_list (dict_values r3) + (if sc \<noteq> [] then t * animal_pct p else 0)"
    unfolding r4_def by (simp add: add_each_sum)
  have s5: "sum_list (dict_values r5) = sum_list (dict_values r4) + (if ss \<noteq> [] then t * castor_pct p else 0)"
    unfolding r5_def by (simp add: add_each_sum)
  have s6: "sum_list (dict_values r6) = sum_list (dict_values r5) + (if sp \<noteq> [] then t * specialty_pct p else 0)"
    unfolding r6_def by (simp add: add_each_sum)
  have z2: "0 \<le> sum_list (dict_values r2)" by (rule nonneg_sum [OF n2])
  have th: "0 \<le> t * hard_pct p" "0 \<le> t * animal_pct p" "0 \<le> t * castor_pct p"
      "0 \<le> t * specialty_pct p"
    using nn t by simp_all
  from some have "sb \<noteq> [] \<or> sh \<noteq> [] \<or> ss \<noteq> [] \<or> sc \<noteq> [] \<or> sp \<noteq> []"
    unfolding sb_def sh_def ss_def sc_def sp_def selected_in_nonempty all_categories_def by auto
  moreover have "sh \<noteq> [] \<Longrightarrow> ''Coconut Oil'' \<in> set sh \<or> sh' \<noteq> []"
    unfolding sh'_eq by (auto simp: filter_empty_conv neq_Nil_conv)
  ultimately consider "sb \<noteq> [] \<or> ''Coconut Oil'' \<in> set sh" | "sh' \<noteq> []" | "sc \<noteq> []"
    | "ss \<noteq> []" | "sp \<noteq> []"
    by blast
  then have "0 < sum_list (dict_values r6)"
  proof cases
    case 1
    from s2 [OF 1] th show ?thesis unfolding s6 s5 s4 s3 by simp
  next
    case 2
    with ph t have "0 < t * hard_pct p" by simp
    with z2 th 2 show ?thesis unfolding s6 s5 s4 s3 by simp
  next
    case 3
    with pa t have "0 < t * animal_pct p" by simp
    with z2 th 3 show ?thesis unfolding s6 s5 s4 s3 by simp
  next
    case 4
    with ps t have "0 < t * castor_pct p" by simp
    with z2 th 4 show ?thesis unfolding s6 s5 s4 s3 by simp
  next
    case 5
    with pp' t have "0 < t * specialty_pct p" by simp
    with z2 th 5 show ?thesis unfolding s6 s5 s4 s3 by simp
  qed
  then show ?thesis by (simp add: alloc)
qed

lemma targeted_total:
  assumes "0 < t" and "targets_in_range tp" and "\<exists>oil \<in> set sel. oil \<in> set all_categories"
  shows "\<bar>sum_list (dict_values (generate_targeted_recipe sel t tp)) - t\<bar>
           \<le> 5 / 1000 * real (length (generate_targeted_recipe sel t tp))"
proof -
  define r where "r = allocate sel t (category_percentages sel tp)"
  have "0 < sum_list (dict_values r)"
    unfolding r_def by (rule allocate_positive [OF category_present_positive assms(1,3)]) (rule assms(2))
  then have "sum_list (dict_values (normalize_to_total t r)) = t"
    by (rule normalize_to_total_sum)
  with round_weights_sum [of "normalize_to_total t r"]
  show ?thesis
    unfolding generate_targeted_recipe_def r_def [symmetric]
    by (simp add: round_weights_length normalize_to_total_length)
qed


lemma initial_absent_zero: "absent_zero sel (initial_percentages sel tp)"
  unfolding absent_zero_def initial_percentages_def Let_def by simp

lemma compensate_absent_zero: "absent_zero sel p \<Longrightarrow> absent_zero sel (compensate sel p)"
  unfolding absent_zero_def compensate_def Let_def by simp

lemma normalize_absent_zero: "absent_zero sel p \<Longrightarrow> absent_zero sel (normalize_percentages p)"
  unfolding absent_zero_def normalize_percentages_def Let_def by simp

lemma category_absent_zero: "absent_zero sel (category_percentages sel tp)"
  unfolding category_percentages_def
  by (intro normalize_absent_zero compensate_absent_zero initial_absent_zero)

lemma normalize_total_one:
  assumes "0 < total_of p"
  shows "total_of (normalize_percentages p) = 1"
proof -
  from assms have "normalize_percentages p =
     \<lparr>base_pct = base_pct p / total_of p, coconut_pct = coconut_pct p / total_of p,
      hard_pct = hard_pct p / total_of p, animal_pct = animal_pct p / total_of p,
      castor_pct = castor_pct p / total_of p, specialty_pct = specialty_pct p / total_of p\<rparr>"
    by (simp add: normalize_percentages_def total_of_def Let_def)
  then have "total_of (normalize_percentages p)
      = base_pct p / total_of p + coconut_pct p / total_of p + hard_pct p / total_of p
        + animal_pct p / total_of p + castor_pct p / total_of p + specialty_pct p / total_of p"
    by (simp only: total_of_def percentages.simps)
  also have "\<dots> = (base_pct p + coconut_pct p + hard_pct p + animal_pct p + castor_pct p
        + specialty_pct p) / total_of p"
    by (simp only: add_divide_distrib)
  also have "\<dots> = 1" using assms by (simp add: total_of_def)
  finally show ?thesis .
qed

lemma present_total_positive:
  assumes pp: "present_positive sel p" and some: "\<exists>oil \<in> set sel. oil \<in> set all_categories"
  shows "0 < total_of p"
proof -
  let ?sh = "selected_in OIL_CATEGORIES_hard sel"
  from some have "selected_in OIL_CATEGORIES_base sel \<noteq> [] \<or> ?sh \<noteq> []
      \<or> selected_in OIL_CATEGORIES_super_fat sel \<noteq> []
      \<or> selected_in OIL_CATEGORIES_conditioning sel \<noteq> []
      \<or> selected_in OIL_CATEGORIES_specialty sel \<noteq> []"
    unfolding selected_in_nonempty all_categories_def by auto
  moreover have "?sh \<noteq> [] \<Longrightarrow> ''Coconut Oil'' \<in> set ?sh \<or> filter (\<lambda>x. x \<noteq> ''Coconut Oil'') ?sh \<noteq> []"
    by (auto simp: filter_empty_conv neq_Nil_conv)
  ultimately have "0 < base_pct p \<or> 0 < coconut_pct p \<or> 0 < hard_pct p \<or> 0 < animal_pct p
      \<or> 0 < castor_pct p \<or> 0 < specialty_pct p"
    using pp unfolding present_positive_def by blast
  moreover from pp have "0 \<le> base_pct p" "0 \<le> coconut_pct p" "0 \<le> hard_pct p" "0 \<le> animal_pct p"
      "0 \<le> castor_pct p" "0 \<le> specialty_pct p"
    unfolding present_positive_def by simp_all
  ultimately show ?thesis unfolding total_of_def by linarith
qed

lemma category_total_one:
  assumes "targets_in_range tp" and "\<exists>oil \<in> set sel. oil \<in> set all_categories"
  shows "total_of (category_percentages sel tp) = 1"
  unfolding category_percentages_def
  by (intro normalize_total_one present_total_positive [OF _ assms(2)]
      compensate_present_positive initial_present_positive assms(1))

lemma normalize_single: "normalize_to_total t [(oil, t)] = [(oil, t)]"
  by (simp add: normalize_to_total_def dict_values_def Let_def)

lemma single_oil_targeted:
  assumes cat: "oil \<in> set all_categories" and tr: "targets_in_range tp"
  shows "generate_targeted_recipe [oil] t tp = [(oil, py_round t 2)]"
proof -
  define p where "p = category_percentages [oil] tp"
  have one: "total_of p = 1"
    unfolding p_def using tr cat by (intro category_total_one) simp_all
  have az: "absent_zero [oil] p" unfolding p_def by (rule category_absent_zero)
  have sel: "selected_in c [x] = (if x \<in> set c then [x] else [])" for c x
    by (simp add: selected_in_def)
  from cat consider
      (base) "oil \<in> set OIL_CATEGORIES_base"
    | (coconut) "oil = ''Coconut Oil''"
    | (hard) "oil \<in> set OIL_CATEGORIES_hard" "oil \<noteq> ''Coconut Oil''"
    | (super) "oil \<in> set OIL_CATEGORIES_super_fat"
    | (cond) "oil \<in> set OIL_CATEGORIES_conditioning"
    | (spec) "oil \<in> set OIL_CATEGORIES_specialty"
    unfolding all_categories_def by auto
  then have "allocate [oil] t p = [(oil, t)]"
  proof cases
    case base
    note d = base_disjoint [OF base]
    from az one base d have "base_pct p = 1"
      unfolding absent_zero_def total_of_def sel by simp
    then show ?thesis using base d by (simp add: allocate_def sel)
  next
    case coconut
    note h = coconut_is_hard
    note d = hard_disjoint [OF h]
    from az one h d have "coconut_pct p = 1"
      unfolding absent_zero_def total_of_def sel coconut by simp
    then show ?thesis using h d by (simp add: allocate_def sel coconut)
  next
    case hard
    note d = hard_disjoint [OF hard(1)]
    from az one hard d have "hard_pct p = 1"
      unfolding absent_zero_def total_of_def sel by simp
    then show ?thesis using hard d by (simp add: allocate_def sel dict_get_def)
  next
    case super
    note d = super_fat_disjoint [OF super]
    from az one super d have "castor_pct p = 1"
      unfolding absent_zero_def total_of_def sel by simp
    then show ?thesis using super d by (simp add: allocate_def sel dict_get_def)
  next
    case cond
    note d = conditioning_disjoint [OF cond]
    from az one cond d have "animal_pct p = 1"
      unfolding absent_zero_def total_of_def sel by simp
    then show ?thesis using cond d by (simp add: allocate_def sel dict_get_def)
  next
    case spec
    note d = specialty_disjoint [OF spec]
    from az one spec d have "specialty_pct p = 1"
      unfolding absent_zero_def total_of_def sel by simp
    then show ?thesis using spec d by (simp add: allocate_def sel dict_get_def)
  qed
  then show ?thesis
    unfolding generate_targeted_recipe_def p_def [symmetric]
    by (simp add: normalize_single round_weights_def)
qed

section \<open>The default schedule and the small selections\<close>

lemma selected_in_subset: "set (selected_in c sel) \<subseteq> set c \<inter> set sel"
  by (auto simp: selected_in_def)

lemma selected_in_distinct: "distinct sel \<Longrightarrow> distinct (selected_in c sel)"
  by (simp add: selected_in_def)

lemma schedule_step_sum:
  assumes "distinct ks" and "set ks \<inter> set (dict_keys (fst s)) = {}"
  shows "sum_list (dict_values (fst (schedule_step ks c s))) + snd (schedule_step ks c s)
           = sum_list (dict_values (fst s)) + snd s"
  using assms by (cases s) (simp add: schedule_step_def assign_each_sum)

lemma schedule_step_keys:
  assumes "distinct ks" and "set ks \<inter> set (dict_keys (fst s)) = {}"
  shows "dict_keys (fst (schedule_step ks c s)) = dict_keys (fst s) @ ks"
  using assms by (cases s) (simp add: schedule_step_def assign_each_keys)

lemma schedule_step_remaining:
  "snd (schedule_step ks c s) = (if ks \<noteq> [] then snd s - c else snd s)"
  by (cases s) (simp add: schedule_step_def)

lemma default_schedule_total:
  assumes d: "distinct sel" and t: "0 \<le> t"
    and some: "\<exists>oil \<in> set sel. oil \<in> set all_categories"
  shows "\<bar>sum_list (dict_values (default_schedule sel t)) - t\<bar> \<le> 1 / 100"
proof -
  define sb where "sb = selected_in OIL_CATEGORIES_base sel"
  define sh where "sh = selected_in OIL_CATEGORIES_hard sel"
  define ss where "ss = selected_in OIL_CATEGORIES_super_fat sel"
  define sc where "sc = selected_in OIL_CATEGORIES_conditioning sel"
  define sp where "sp = selected_in OIL_CATEGORIES_specialty sel"
  define s0 :: "real py_dict \<times> real" where "s0 = ([], t)"
  define s1 where "s1 = schedule_step sb (t * (45 / 100)) s0"
  define s2 where "s2 = schedule_step sh (min (t * (30 / 100)) (snd s1)) s1"
  define s3 where "s3 = schedule_step sc (min (t * (18 / 100)) (snd s2)) s2"
  define s4 where "s4 = schedule_step ss (min (t * (7 / 100)) (snd s3)) s3"
  define s5 where "s5 = schedule_step sp (min (t * (5 / 100)) (snd s4)) s4"
  have ds: "default_schedule sel t =
      (if 1 / 100 < snd s5 \<and> fst s5 \<noteq> []
       then map (\<lambda>(oil, weight). (oil, weight + snd s5 / real (length (fst s5)))) (fst s5)
       else fst s5)"
    unfolding default_schedule_def Let_def s5_def s4_def s3_def s2_def s1_def s0_def
      sb_def sh_def ss_def sc_def sp_def ..
  have dist: "distinct sb" "distinct sh" "distinct ss" "distinct sc" "distinct sp"
    unfolding sb_def sh_def ss_def sc_def sp_def by (simp_all add: selected_in_distinct d)
  have sub: "set sb \<subseteq> set OIL_CATEGORIES_base" "set sh \<subseteq> set OIL_CATEGORIES_hard"
      "set ss \<subseteq> set OIL_CATEGORIES_super_fat" "set sc \<subseteq> set OIL_CATEGORIES_conditioning"
      "set sp \<subseteq> set OIL_CATEGORIES_specialty"
    unfolding sb_def sh_def ss_def sc_def sp_def using selected_in_subset by blast+
  have k0: "dict_keys (fst s0) = []" by (simp add: s0_def dict_keys_def)
  have i1: "set sb \<inter> set (dict_keys (fst s0)) = {}" by (simp add: k0)
  have k1: "dict_keys (fst s1) = sb"
    unfolding s1_def by (simp add: schedule_step_keys [OF dist(1) i1] k0)
  have i2: "set sh \<inter> set (dict_keys (fst s1)) = {}"
    unfolding k1 using sub hard_disjoint by blast
  have k2: "dict_keys (fst s2) = sb @ sh"
    unfolding s2_def by (simp add: schedule_step_keys [OF dist(2) i2] k1)
  have i3: "set sc \<inter> set (dict_keys (fst s2)) = {}"
    unfolding k2 set_append using sub conditioning_disjoint by blast
  have k3: "dict_keys (fst s3) = sb @ sh @ sc"
    unfolding s3_def by (simp add: schedule_step_keys [OF dist(4) i3] k2)
  have i4: "set ss \<inter> set (dict_keys (fst s3)) = {}"
    unfolding k3 set_append using sub super_fat_disjoint by blast
  have k4: "dict_keys (fst s4) = sb @ sh @ sc @ ss"
    unfolding s4_def by (simp add: schedule_step_keys [OF dist(3) i4] k3)
  have i5: "set sp \<inter> set (dict_keys (fst s4)) = {}"
    unfolding k4 set_append using sub specialty_disjoint by blast
  have k5: "dict_keys (fst s5) = sb @ sh @ sc @ ss @ sp"
    unfolding s5_def by (simp add: schedule_step_keys [OF dist(5) i5] k4)
  have v0: "sum_list (dict_values (fst s0)) + snd s0 = t" by (simp add: s0_def dict_values_def)
  have v1: "sum_list (dict_values (fst s1)) + snd s1 = t"
    unfolding s1_def by (simp add: schedule_step_sum [OF dist(1) i1] v0)
  have v2: "sum_list (dict_values (fst s2)) + snd s2 = t"
    unfolding s2_def by (simp add: schedule_step_sum [OF dist(2) i2] v1)
  have v3: "sum_list (dict_values (fst s3)) + snd s3 = t"
    unfolding s3_def by (simp add: schedule_step_sum [OF dist(4) i3] v2)
  have v4: "sum_list (dict_values (fst s4)) + snd s4 = t"
    unfolding s4_def by (simp add: schedule_step_sum [OF dist(3) i4] v3)
  have v5: "sum_list (dict_values (fst s5)) + snd s5 = t"
    unfolding s5_def by (simp add: schedule_step_sum [OF dist(5) i5] v4)
  have m1: "0 \<le> snd s1"
    unfolding s1_def schedule_step_remaining using t by (simp add: s0_def)
  have m2: "0 \<le> snd s2"
    unfolding s2_def schedule_step_remaining using m1 by simp
  have m3: "0 \<le> snd s3"
    unfolding s3_def schedule_step_remaining using m2 by simp
  have m4: "0 \<le> snd s4"
    unfolding s4_def schedule_step_remaining using m3 by simp
  have m5: "0 \<le> snd s5"
    unfolding s5_def schedule_step_remaining using m4 by simp
  from some have "sb @ sh @ sc @ ss @ sp \<noteq> []"
    unfolding sb_def sh_def ss_def sc_def sp_def all_categories_def
    using selected_in_nonempty by auto
  then have ne: "fst s5 \<noteq> []" using k5 by (auto simp: dict_keys_def)
  show ?thesis
  proof (cases "1 / 100 < snd s5")
    case True
    with ne have "default_schedule sel t
        = map (\<lambda>(oil, weight). (oil, weight + snd s5 / real (length (fst s5)))) (fst s5)"
      by (simp only: ds simp_thms if_True)
    then have "sum_list (dict_values (default_schedule sel t))
        = sum_list (dict_values (fst s5)) + real (length (fst s5)) * (snd s5 / real (length (fst s5)))"
      by (simp only: sum_shifted)
    also have "\<dots> = t" using ne v5 by simp
    finally show ?thesis by simp
  next
    case False
    then have "default_schedule sel t = fst s5" by (simp only: ds simp_thms if_False)
    with v5 m5 False show ?thesis by simp
  qed
qed


lemma hd_base_hard_differ:
  assumes "selected_in OIL_CATEGORIES_base sel \<noteq> []" and "selected_in OIL_CATEGORIES_hard sel \<noteq> []"
  shows "hd (selected_in OIL_CATEGORIES_base sel) \<noteq> hd (selected_in OIL_CATEGORIES_hard sel)"
    and "hd (selected_in OIL_CATEGORIES_base sel) \<in> set sel"
    and "hd (selected_in OIL_CATEGORIES_hard sel) \<in> set sel"
proof -
  from assms have b: "hd (selected_in OIL_CATEGORIES_base sel) \<in> set OIL_CATEGORIES_base \<inter> set sel"
    and h: "hd (selected_in OIL_CATEGORIES_hard sel) \<in> set OIL_CATEGORIES_hard \<inter> set sel"
    using selected_in_subset hd_in_set by blast+
  from b h base_disjoint show "hd (selected_in OIL_CATEGORIES_base sel) \<noteq> hd (selected_in OIL_CATEGORIES_hard sel)"
    by auto
  from b show "hd (selected_in OIL_CATEGORIES_base sel) \<in> set sel" by simp
  from h show "hd (selected_in OIL_CATEGORIES_hard sel) \<in> set sel" by simp
qed

lemma default_one:
  assumes "tp = None \<or> tp = Some []"
  shows "generate_recipe [a] lbs tp = Inr (round_weights [(a, lbs * 16)])"
  using assms by (auto simp: generate_recipe_def Let_def)

lemma default_two:
  assumes tp: "tp = None \<or> tp = Some []" and ab: "a \<noteq> b"
  shows "\<exists>r. generate_recipe [a, b] lbs tp = Inr (round_weights r) \<and> length r = 2 \<and>
             sum_list (dict_values r) = lbs * 16"
proof (cases "selected_in OIL_CATEGORIES_base [a, b] \<noteq> [] \<and> selected_in OIL_CATEGORIES_hard [a, b] \<noteq> []")
  case True
  define x where "x = hd (selected_in OIL_CATEGORIES_base [a, b])"
  define y where "y = hd (selected_in OIL_CATEGORIES_hard [a, b])"
  define r where "r = [(x, lbs * 16 * (70 / 100)), (y, lbs * 16 * (30 / 100))]"
  from True have t1: "selected_in OIL_CATEGORIES_base [a, b] \<noteq> []"
    and t2: "selected_in OIL_CATEGORIES_hard [a, b] \<noteq> []" by simp_all
  have xy: "x \<noteq> y" unfolding x_def y_def by (rule hd_base_hard_differ(1) [OF t1 t2])
  have "generate_recipe [a, b] lbs tp
      = Inr (round_weights (dict_set (dict_set [] x (lbs * 16 * (70 / 100))) y (lbs * 16 * (30 / 100))))"
    using tp True unfolding x_def y_def by (auto simp: generate_recipe_def Let_def)
  also have "dict_set (dict_set [] x (lbs * 16 * (70 / 100))) y (lbs * 16 * (30 / 100)) = r"
    unfolding r_def using xy by simp
  finally have "generate_recipe [a, b] lbs tp = Inr (round_weights r)" .
  moreover have "length r = 2" "sum_list (dict_values r) = lbs * 16"
    unfolding r_def by (simp_all add: dict_values_def)
  ultimately show ?thesis by blast
next
  case False
  define r where "r = [(a, lbs * 16 * (60 / 100)), (b, lbs * 16 * (40 / 100))]"
  from False have "generate_recipe [a, b] lbs tp
      = Inr (round_weights (dict_set (dict_set [] a (lbs * 16 * (60 / 100))) b (lbs * 16 * (40 / 100))))"
    using tp by (auto simp: generate_recipe_def Let_def)
  also have "dict_set (dict_set [] a (lbs * 16 * (60 / 100))) b (lbs * 16 * (40 / 100)) = r"
    unfolding r_def using ab by simp
  finally have "generate_recipe [a, b] lbs tp = Inr (round_weights r)" .
  moreover have "length r = 2" "sum_list (dict_values r) = lbs * 16"
    unfolding r_def by (simp_all add: dict_values_def)
  ultimately show ?thesis by blast
qed

lemma default_three:
  assumes tp: "tp = None \<or> tp = Some []" and d: "distinct [a, b, c]"
  shows "\<exists>r. generate_recipe [a, b, c] lbs tp = Inr (round_weights r) \<and> length r = 3 \<and>
             sum_list (dict_values r) = lbs * 16"
proof (cases "selected_in OIL_CATEGORIES_base [a, b, c] \<noteq> [] \<and> selected_in OIL_CATEGORIES_hard [a, b, c] \<noteq> []")
  case True
  define x where "x = hd (selected_in OIL_CATEGORIES_base [a, b, c])"
  define y where "y = hd (selected_in OIL_CATEGORIES_hard [a, b, c])"
  from True have t1: "selected_in OIL_CATEGORIES_base [a, b, c] \<noteq> []"
    and t2: "selected_in OIL_CATEGORIES_hard [a, b, c] \<noteq> []" by simp_all
  have xy: "x \<noteq> y" and xs: "x \<in> set [a, b, c]" and ys: "y \<in> set [a, b, c]"
    unfolding x_def y_def by (rule hd_base_hard_differ [OF t1 t2])+
  define others where "others = filter (\<lambda>oil. oil \<notin> set [x, y]) [a, b, c]"
  from d xy xs ys have "others \<noteq> []" unfolding others_def by auto
  then obtain z zs where o: "others = z # zs" by (cases others) auto
  then have "z \<in> set others" by simp
  then have "z \<notin> set [x, y]" unfolding others_def set_filter by blast
  then have z: "z \<noteq> x" "z \<noteq> y" by simp_all
  define r where "r = [(x, lbs * 16 * (50 / 100)), (y, lbs * 16 * (30 / 100)), (z, lbs * 16 * (20 / 100))]"
  have "generate_recipe [a, b, c] lbs tp
      = (case (case others of [] \<Rightarrow> Inl IndexError
               | other # _ \<Rightarrow> Inr (dict_set (dict_set (dict_set [] x (lbs * 16 * (50 / 100)))
                                        y (lbs * 16 * (30 / 100))) other (lbs * 16 * (20 / 100))))
         of Inl e \<Rightarrow> Inl e | Inr recipe \<Rightarrow> Inr (round_weights recipe))"
    using tp True unfolding others_def x_def y_def
    by (auto simp add: generate_recipe_def Let_def simp del: filter.simps dict_set.simps)
  also have "\<dots> = Inr (round_weights (dict_set (dict_set (dict_set [] x (lbs * 16 * (50 / 100)))
                                        y (lbs * 16 * (30 / 100))) z (lbs * 16 * (20 / 100))))"
    by (simp add: o del: dict_set.simps)
  also have "dict_set (dict_set (dict_set [] x (lbs * 16 * (50 / 100)))
                                        y (lbs * 16 * (30 / 100))) z (lbs * 16 * (20 / 100)) = r"
    unfolding r_def using xy z by simp
  finally have "generate_recipe [a, b, c] lbs tp = Inr (round_weights r)" .
  moreover have "length r = 3" "sum_list (dict_values r) = lbs * 16"
    unfolding r_def by (simp_all add: dict_values_def)
  ultimately show ?thesis by blast
next
  case False
  define r where "r = [(a, lbs * 16 / 3), (b, lbs * 16 / 3), (c, lbs * 16 / 3)]"
  from False have "generate_recipe [a, b, c] lbs tp = Inr (round_weights (assign_each [] [a, b, c] (lbs * 16 / 3)))"
    using tp by (auto simp add: generate_recipe_def Let_def simp del: assign_each.simps)
  also have "assign_each [] [a, b, c] (lbs * 16 / 3) = r"
    unfolding r_def using d by simp
  finally have "generate_recipe [a, b, c] lbs tp = Inr (round_weights r)" .
  moreover have "length r = 3" "sum_list (dict_values r) = lbs * 16"
    unfolding r_def by (simp_all add: dict_values_def)
  ultimately show ?thesis by blast
qed

lemma default_four:
  assumes tp: "tp = None \<or> tp = Some []" and l: "4 \<le> length sel"
  shows "generate_recipe sel lbs tp = Inr (round_weights (default_schedule sel (lbs * 16)))"
proof -
  from l obtain a b c e rest where "sel = a # b # c # e # rest"
    by (auto simp: Suc_le_length_iff numeral_eq_Suc)
  with tp show ?thesis by (auto simp: generate_recipe_def Let_def)
qed

lemma targeted_branch:
  assumes "sel \<noteq> []" and "target_dict tp \<noteq> []"
  shows "generate_recipe sel lbs tp = Inr (generate_targeted_recipe sel (lbs * 16) (target_dict tp))"
  using assms by (cases tp) (auto simp: generate_recipe_def target_dict_def Let_def)

lemma default_branch: "target_dict tp = [] \<longleftrightarrow> tp = None \<or> tp = Some []"
  by (cases tp) (auto simp: target_dict_def)

section \<open>The total of a generated recipe\<close>

text \<open>
  Six base oils and a batch of one pound, no targets: every oil gets \<open>16 / 6\<close> ounces,
  which is rounded to 2.67, and the weights sum to 16.02, which is 0.02 above the total.
\<close>

theorem six_base_oils_off_by_two_hundredths:
  "generate_recipe [''Olive Oil'', ''Sunflower Oil'', ''Sweet Almond Oil'', ''Rice Bran Oil'',
                    ''Canola Oil'', ''Avocado Oil''] 1 None
     = Inr [(''Olive Oil'', 267 / 100), (''Sunflower Oil'', 267 / 100),
            (''Sweet Almond Oil'', 267 / 100), (''Rice Bran Oil'', 267 / 100),
            (''Canola Oil'', 267 / 100), (''Avocado Oil'', 267 / 100)] \<and>
   \<not> \<bar>sum_list (dict_values [(''Olive Oil'', 267 / 100), (''Sunflower Oil'', 267 / 100),
            (''Sweet Almond Oil'', 267 / 100), (''Rice Bran Oil'', 267 / 100),
            (''Canola Oil'', 267 / 100), (''Avocado Oil'', 267 / 100 :: real)]) - 1 * 16\<bar> \<le> 1 / 100"
  by (simp add: generate_recipe_def default_schedule_def schedule_step_def selected_in_def
      OIL_CATEGORIES_base_def OIL_CATEGORIES_hard_def OIL_CATEGORIES_super_fat_def
      OIL_CATEGORIES_conditioning_def OIL_CATEGORIES_specialty_def
      round_weights_def py_round_def round_half_even_def dict_values_def Let_def)

text \<open>
  Claim C1, as the code has it. For a non-empty selection of distinct oils and a positive
  batch size, with targets inside the slider ranges, and with an oil of one of the five
  categories in the selection whenever the allocation goes by category (targets given, or
  four and more oils): \<^verbatim>\<open>generate_recipe\<close> returns a recipe whose weights sum to the
  total of \<open>16 * lbs\<close> ounces up to 0.005 for each returned oil, the error of rounding one
  weight, and up to 0.01 more for four and more oils without targets, where a remainder
  of at most 0.01 is not distributed.
\<close>

theorem allocation_total_after_rounding:
  assumes d: "distinct sel" and ne: "sel \<noteq> []" and pos: "0 < lbs"
    and rng: "targets_in_range (target_dict tp)"
    and cat: "4 \<le> length sel \<or> target_dict tp \<noteq> [] \<longrightarrow> (\<exists>oil \<in> set sel. oil \<in> set all_categories)"
  shows "\<exists>recipe. generate_recipe sel lbs tp = Inr recipe \<and>
           \<bar>sum_list (dict_values recipe) - lbs * 16\<bar>
             \<le> (if target_dict tp = [] \<and> 4 \<le> length sel then 1 / 100 else 0)
                + 5 / 1000 * real (length recipe)"
proof (cases "target_dict tp = []")
  case False
  from pos have t: "0 < lbs * 16" by simp
  from False cat have some: "\<exists>oil \<in> set sel. oil \<in> set all_categories" by simp
  from targeted_total [OF t rng some] targeted_branch [OF ne False] False
  show ?thesis by simp
next
  case True
  then have tp: "tp = None \<or> tp = Some []" by (simp add: default_branch)
  have "\<exists>r. generate_recipe sel lbs tp = Inr (round_weights r) \<and>
           \<bar>sum_list (dict_values r) - lbs * 16\<bar> \<le> (if 4 \<le> length sel then 1 / 100 else 0)"
  proof (cases "4 \<le> length sel")
    case True
    with cat have some: "\<exists>oil \<in> set sel. oil \<in> set all_categories" by simp
    from pos have "0 \<le> lbs * 16" by simp
    from default_schedule_total [OF d this some] default_four [OF tp True] True
    show ?thesis by auto
  next
    case False
    with ne consider a where "sel = [a]" | a b where "sel = [a, b]" | a b c where "sel = [a, b, c]"
      by (cases sel; cases "tl sel"; cases "tl (tl sel)"; cases "tl (tl (tl sel))") auto
    then show ?thesis
    proof cases
      case 1
      with default_one [OF tp, of a lbs] show ?thesis by (auto simp: dict_values_def)
    next
      case 2
      with d have "a \<noteq> b" by simp
      from default_two [OF tp this, of lbs] 2 show ?thesis by auto
    next
      case 3
      with d have "distinct [a, b, c]" by simp
      from default_three [OF tp this, of lbs] 3 show ?thesis by auto
    qed
  qed
  then obtain r where g: "generate_recipe sel lbs tp = Inr (round_weights r)"
    and s: "\<bar>sum_list (dict_values r) - lbs * 16\<bar> \<le> (if 4 \<le> length sel then 1 / 100 else 0)"
    by blast
  from round_weights_sum [of r] s
  have "\<bar>sum_list (dict_values (round_weights r)) - lbs * 16\<bar>
          \<le> (if 4 \<le> length sel then 1 / 100 else 0) + 5 / 1000 * real (length (round_weights r))"
    unfolding round_weights_length by linarith
  with g True show ?thesis by simp
qed

theorem allocation_total_after_rounding_witness:
  "distinct [''Olive Oil'', ''Coconut Oil'', ''Lard''] \<and>
   [''Olive Oil'', ''Coconut Oil'', ''Lard''] \<noteq> [] \<and> (0::real) < 2 \<and>
   targets_in_range (target_dict (Some [(''hardness'', 45)])) \<and>
   (\<exists>oil \<in> set [''Olive Oil'', ''Coconut Oil'', ''Lard'']. oil \<in> set all_categories) \<and>
   (\<exists>recipe. generate_recipe [''Olive Oil'', ''Coconut Oil'', ''Lard''] 2 (Some [(''hardness'', 45)])
                = Inr recipe \<and>
      \<bar>sum_list (dict_values recipe) - 2 * 16\<bar> \<le> 5 / 1000 * real (length recipe))"
proof -
  have d: "distinct [''Olive Oil'', ''Coconut Oil'', ''Lard'']" by simp
  have ne: "[''Olive Oil'', ''Coconut Oil'', ''Lard''] \<noteq> []" by simp
  have pos: "(0::real) < 2" by simp
  have td: "target_dict (Some [(''hardness'', 45)]) = [(''hardness'', 45)]"
    by (simp add: target_dict_def)
  have rng: "targets_in_range (target_dict (Some [(''hardness'', 45)]))"
    unfolding td by (simp add: targets_in_range_def dict_get_def)
  have some: "\<exists>oil \<in> set [''Olive Oil'', ''Coconut Oil'', ''Lard'']. oil \<in> set all_categories"
    by (simp add: all_categories_def OIL_CATEGORIES_base_def)
  from allocation_total_after_rounding [OF d ne pos rng] some td d pos rng
  show ?thesis by simp
qed

text \<open>
  A single oil that is in none of the five categories, with targets: the result is the
  empty recipe.
\<close>

theorem uncategorised_single_oil_gets_nothing:
  "generate_recipe [''Palm Kernel Oil''] (100 / 16) (Some [(''hardness'', 40)]) = Inr []"
  by (simp add: generate_recipe_def generate_targeted_recipe_def allocate_def selected_in_def
      normalize_to_total_def round_weights_def dict_values_def
      OIL_CATEGORIES_base_def OIL_CATEGORIES_hard_def OIL_CATEGORIES_super_fat_def
      OIL_CATEGORIES_conditioning_def OIL_CATEGORIES_specialty_def Let_def)

text \<open>
  Claim C2, as the code has it. Without targets a single selected oil gets the whole
  total of \<open>16 * lbs\<close> ounces, rounded to two decimals, whatever the oil. With targets,
  inside the slider ranges, it does when it belongs to one of the five categories.
\<close>

theorem single_oil_gets_total:
  assumes "target_dict tp \<noteq> [] \<longrightarrow> targets_in_range (target_dict tp) \<and> oil \<in> set all_categories"
  shows "generate_recipe [oil] lbs tp = Inr [(oil, py_round (lbs * 16) 2)]"
proof (cases "target_dict tp = []")
  case True
  then have "tp = None \<or> tp = Some []" by (simp add: default_branch)
  from default_one [OF this] show ?thesis by (simp add: round_weights_def)
next
  case False
  with assms have "targets_in_range (target_dict tp)" "oil \<in> set all_categories" by simp_all
  from single_oil_targeted [OF this(2,1)] targeted_branch [OF _ False, of "[oil]" lbs]
  show ?thesis by simp
qed

theorem single_oil_gets_total_witness:
  "target_dict (Some [(''creamy'', 40)]) \<noteq> [] \<and>
   targets_in_range (target_dict (Some [(''creamy'', 40)])) \<and>
   ''Lard'' \<in> set all_categories \<and>
   generate_recipe [''Lard''] (100 / 16) (Some [(''creamy'', 40)]) = Inr [(''Lard'', 100)] \<and>
   target_dict None = [] \<and>
   generate_recipe [''Palm Kernel Oil''] (100 / 16) None = Inr [(''Palm Kernel Oil'', 100)]"
proof -
  have h: "target_dict (Some [(''creamy'', 40)]) \<noteq> []"
      "targets_in_range (target_dict (Some [(''creamy'', 40)]))"
      "''Lard'' \<in> set all_categories"
    by (simp_all add: target_dict_def targets_in_range_def dict_get_def all_categories_def
        OIL_CATEGORIES_conditioning_def)
  have h': "target_dict None = []"
    by (simp add: target_dict_def)
  have r: "py_round (100 / 16 * 16) 2 = 100"
    by (simp add: py_round_def round_half_even_def)
  from single_oil_gets_total [of "Some [(''creamy'', 40)]" "''Lard''" "100 / 16"]
    single_oil_gets_total [of None "''Palm Kernel Oil''" "100 / 16"] h h' r
  show ?thesis by simp
qed

text \<open>
  With one oil that is in no category, every percentage is zero and so is their sum:
  the normalisation is guarded by \<^verbatim>\<open>if total_pct > 0\<close>.
\<close>

theorem no_category_no_normalisation:
  "selected_in OIL_CATEGORIES_base [''Palm Kernel Oil''] = [] \<and>
   total_of (category_percentages [''Palm Kernel Oil''] [(''hardness'', 40)]) = 0"
  by (simp add: category_percentages_def normalize_percentages_def compensate_def
      initial_percentages_def total_of_def selected_in_def
      OIL_CATEGORIES_base_def OIL_CATEGORIES_hard_def OIL_CATEGORIES_super_fat_def
      OIL_CATEGORIES_conditioning_def OIL_CATEGORIES_specialty_def Let_def)

text \<open>
  Claim C3, as the code has it. Without a selected base oil, the compensation multiplies
  the coconut percentage by 0.6, the percentage of the other hard oils by 1.5 and the one
  of the animal fats by 1.8, and leaves the others. When the total of the percentages is
  then positive, each is divided by it, and they sum to 1 within \<open>1 / 10 ^ 9\<close>: the sum is 1 in
  exact arithmetic, and the divisions of the code round, so that its sum need not be
  exactly 1. When the total is not positive, the percentages stay as the compensation
  left them. The total is positive when the targets are inside the slider ranges and an
  oil of some category is selected.
\<close>

theorem compensation_without_base:
  assumes nb: "selected_in OIL_CATEGORIES_base sel = []"
  shows "compensate sel (initial_percentages sel tp) =
           \<lparr>base_pct = base_pct (initial_percentages sel tp),
            coconut_pct = coconut_pct (initial_percentages sel tp) * (6 / 10),
            hard_pct = hard_pct (initial_percentages sel tp) * (15 / 10),
            animal_pct = animal_pct (initial_percentages sel tp) * (18 / 10),
            castor_pct = castor_pct (initial_percentages sel tp),
            specialty_pct = specialty_pct (initial_percentages sel tp)\<rparr> \<and>
         (0 < total_of (compensate sel (initial_percentages sel tp)) \<longrightarrow>
            category_percentages sel tp =
              \<lparr>base_pct = base_pct (compensate sel (initial_percentages sel tp))
                            / total_of (compensate sel (initial_percentages sel tp)),
               coconut_pct = coconut_pct (compensate sel (initial_percentages sel tp))
                            / total_of (compensate sel (initial_percentages sel tp)),
               hard_pct = hard_pct (compensate sel (initial_percentages sel tp))
                            / total_of (compensate sel (initial_percentages sel tp)),
               animal_pct = animal_pct (compensate sel (initial_percentages sel tp))
                            / total_of (compensate sel (initial_percentages sel tp)),
               castor_pct = castor_pct (compensate sel (initial_percentages sel tp))
                            / total_of (compensate sel (initial_percentages sel tp)),
               specialty_pct = specialty_pct (compensate sel (initial_percentages sel tp))
                            / total_of (compensate sel (initial_percentages sel tp))\<rparr> \<and>
            \<bar>total_of (category_percentages sel tp) - 1\<bar> \<le> 1 / 10 ^ 9) \<and>
         (\<not> 0 < total_of (compensate sel (initial_percentages sel tp)) \<longrightarrow>
            category_percentages sel tp = compensate sel (initial_percentages sel tp)) \<and>
         (targets_in_range tp \<and> (\<exists>oil \<in> set sel. oil \<in> set all_categories) \<longrightarrow>
            0 < total_of (compensate sel (initial_percentages sel tp)))"
proof -
  define p where "p = initial_percentages sel tp"
  define q where "q = compensate sel p"
  have az: "absent_zero sel p" unfolding p_def by (rule initial_absent_zero)
  have c: "coconut_pct q = coconut_pct p * (6 / 10)"
    using az nb unfolding q_def compensate_def absent_zero_def Let_def by simp
  have h: "hard_pct q = hard_pct p * (15 / 10)"
    using az nb unfolding q_def compensate_def absent_zero_def Let_def by simp
  have a: "animal_pct q = animal_pct p * (18 / 10)"
    using az nb unfolding q_def compensate_def absent_zero_def Let_def by simp
  have o: "base_pct q = base_pct p" "castor_pct q = castor_pct p" "specialty_pct q = specialty_pct p"
    using nb unfolding q_def compensate_def Let_def by simp_all
  have 1: "q = \<lparr>base_pct = base_pct p, coconut_pct = coconut_pct p * (6 / 10),
            hard_pct = hard_pct p * (15 / 10), animal_pct = animal_pct p * (18 / 10),
            castor_pct = castor_pct p, specialty_pct = specialty_pct p\<rparr>"
    using c h a o by (cases q) simp
  have cp: "category_percentages sel tp = normalize_percentages q"
    unfolding category_percentages_def q_def p_def ..
  have 2: "category_percentages sel tp =
              \<lparr>base_pct = base_pct q / total_of q, coconut_pct = coconut_pct q / total_of q,
               hard_pct = hard_pct q / total_of q, animal_pct = animal_pct q / total_of q,
               castor_pct = castor_pct q / total_of q,
               specialty_pct = specialty_pct q / total_of q\<rparr> \<and>
            \<bar>total_of (category_percentages sel tp) - 1\<bar> \<le> 1 / 10 ^ 9" if "0 < total_of q"
  proof -
    from that have "normalize_percentages q =
              \<lparr>base_pct = base_pct q / total_of q, coconut_pct = coconut_pct q / total_of q,
               hard_pct = hard_pct q / total_of q, animal_pct = animal_pct q / total_of q,
               castor_pct = castor_pct q / total_of q,
               specialty_pct = specialty_pct q / total_of q\<rparr>"
      by (simp add: normalize_percentages_def total_of_def Let_def)
    with normalize_total_one [OF that] cp show ?thesis by simp
  qed
  have 3: "0 < total_of q" if "targets_in_range tp" "\<exists>oil \<in> set sel. oil \<in> set all_categories"
    unfolding q_def p_def
    by (intro present_total_positive [OF _ that(2)] compensate_present_positive
        initial_present_positive that(1))
  have 4: "category_percentages sel tp = q" if "\<not> 0 < total_of q"
    using that unfolding cp by (simp add: normalize_percentages_def total_of_def Let_def)
  from 1 2 3 4 show ?thesis unfolding q_def p_def by blast
qed

theorem compensation_without_base_witness:
  "selected_in OIL_CATEGORIES_base [''Coconut Oil'', ''Lard''] = [] \<and>
   targets_in_range [(''creamy'', 32)] \<and>
   (\<exists>oil \<in> set [''Coconut Oil'', ''Lard'']. oil \<in> set all_categories) \<and>
   0 < total_of (compensate [''Coconut Oil'', ''Lard'']
                   (initial_percentages [''Coconut Oil'', ''Lard''] [(''creamy'', 32)])) \<and>
   \<bar>total_of (category_percentages [''Coconut Oil'', ''Lard''] [(''creamy'', 32)]) - 1\<bar>
     \<le> 1 / 10 ^ 9 \<and>
   selected_in OIL_CATEGORIES_base [''Palm Kernel Oil''] = [] \<and>
   \<not> 0 < total_of (compensate [''Palm Kernel Oil'']
                     (initial_percentages [''Palm Kernel Oil''] [(''creamy'', 32)])) \<and>
   category_percentages [''Palm Kernel Oil''] [(''creamy'', 32)]
     = compensate [''Palm Kernel Oil''] (initial_percentages [''Palm Kernel Oil''] [(''creamy'', 32)])"
proof -
  have nb: "selected_in OIL_CATEGORIES_base [''Coconut Oil'', ''Lard''] = []"
    by (simp add: selected_in_def OIL_CATEGORIES_base_def)
  have rng: "targets_in_range [(''creamy'', 32)]"
    by (simp add: targets_in_range_def dict_get_def)
  have some: "\<exists>oil \<in> set [''Coconut Oil'', ''Lard'']. oil \<in> set all_categories"
    by (simp add: all_categories_def OIL_CATEGORIES_hard_def)
  have nb': "selected_in OIL_CATEGORIES_base [''Palm Kernel Oil''] = []"
    by (simp add: selected_in_def OIL_CATEGORIES_base_def)
  have z: "\<not> 0 < total_of (compensate [''Palm Kernel Oil'']
                     (initial_percentages [''Palm Kernel Oil''] [(''creamy'', 32)]))"
    by (simp add: compensate_def initial_percentages_def total_of_def selected_in_def
        OIL_CATEGORIES_base_def OIL_CATEGORIES_hard_def OIL_CATEGORIES_super_fat_def
        OIL_CATEGORIES_conditioning_def OIL_CATEGORIES_specialty_def Let_def)
  from compensation_without_base [OF nb, of "[(''creamy'', 32)]"]
    compensation_without_base [OF nb', of "[(''creamy'', 32)]"] nb rng some nb' z
  show ?thesis by blast
qed

end
